theory Spec2Isabelle
  imports Main "HOL-Library.AList"
begin

section \<open>Values, exceptions and dictionaries\<close>

text \<open>
  The three modules of the package (\<open>email.py\<close>, \<open>trace.py\<close>, \<open>username.py\<close>) keep their
  findings in a Python \<open>dict\<close> of JSON-like values. A \<open>dict\<close> keeps insertion order, so it
  is an association list; \<open>JFloat m e\<close> is the decimal literal \<open>m * 10^-e\<close> (the only float
  of the sources is the literal \<open>0.15\<close>).
\<close>

datatype json =
    JNull
  | JBool bool
  | JInt int
  | JFloat int nat
  | JStr string
  | JArr "json list"
  | JObj "(string \<times> json) list"

type_synonym pydict = "(string \<times> json) list"

text \<open>An exception of class \<open>Exception\<close>: its class name and \<open>str(e)\<close>.\<close>

datatype exc = Exc string string

fun exc_str :: "exc \<Rightarrow> string" where
  "exc_str (Exc cls msg) = msg"

text \<open>\<open>d.update(e)\<close>: every pair of \<open>e\<close> in order; a key already present keeps its place.\<close>

fun dict_update :: "pydict \<Rightarrow> pydict \<Rightarrow> pydict" where
  "dict_update d [] = d"
| "dict_update d ((k, v) # e) = dict_update (AList.update k v d) e"

text \<open>
  What a caller gets from a method: it returns, it raises (the state is the one the
  exception leaves behind), or it never returns.
\<close>

datatype 'a run = Done 'a | Raised exc 'a | Hangs

section \<open>The logger\<close>

datatype level = DEBUG | INFO | WARNING | ERROR

type_synonym log_entry = "level \<times> string"

section \<open>The outside world\<close>

text \<open>
  \<open>datetime.now()\<close> as the naive local time it returns.
\<close>

record datetime =
  year :: nat
  month :: nat
  day :: nat
  hour :: nat
  minute :: nat
  second :: nat
  microsecond :: nat

text \<open>
  What a file holds: the complete \<open>json.dump\<close> of a dict (the serialisation itself is not
  modelled), the remains of a dump that failed after \<open>open(..., 'w')\<close> had truncated the
  file, or anything not written by these modules.
\<close>

datatype content = Dump pydict | Truncated | Foreign

datatype write_fault = OpenFails exc | DumpFails exc

text \<open>
  An HTTP exchange of \<open>requests\<close>: a response with its status code and what
  \<open>response.json()\<close> gives for its body (the decoded value, or the exception \<open>json()\<close>
  raises when the body is not JSON), or the exception the request itself raises.
\<close>

datatype http_reply = Reply int "exc + json" | NetFail exc

text \<open>
  The world a method runs in. \<open>disk\<close> maps a directory, named by the string the module uses
  for it, to its entries (\<open>None\<close>: no such directory); nesting of directories and different
  spellings of one path are not modelled. The other fields are the behaviour of the
  libraries the modules call: the clock, the faults of \<open>os.makedirs\<close>, \<open>os.listdir\<close> and of
  writing a file, the desktop notifier of \<open>plyer\<close> (given title and message), whether
  \<open>ipaddress.ip_address\<close> accepts a string, the HTTP and socket calls, and
  \<open>done_time\<close>, the moment (in seconds from the start of the wait loop of \<open>execute\<close>) at
  which the thread pool has finished the probe submitted under a label (\<open>None\<close>: never).
  The width of the pool (\<open>max_workers\<close>) only shows through these moments.
\<close>

record world =
  disk :: "string \<Rightarrow> (string \<times> content) list option"
  now :: datetime
  makedirs_fault :: "string \<Rightarrow> exc option"
  listdir_fault :: "string \<Rightarrow> exc option"
  write_fault :: "string \<Rightarrow> string \<Rightarrow> write_fault option"
  notify_fault :: "string \<Rightarrow> string \<Rightarrow> exc option"
  ip_address_ok :: "string \<Rightarrow> bool"
  http_get :: "string \<Rightarrow> http_reply"
  http_head :: "string \<Rightarrow> http_reply"
  gethostbyaddr :: "string \<Rightarrow> exc + string"
  connect_ex :: "string \<Rightarrow> int \<Rightarrow> exc + int"
  done_time :: "string \<Rightarrow> nat option"

section \<open>The module objects\<close>

text \<open>
  The three classes have the same attributes but for the name of the target
  (\<open>target_email\<close>, \<open>target_ip\<close>, \<open>target_username\<close>: here \<open>target\<close>) and for the table
  set up by the constructor: \<open>self.services\<close> in \<open>EmailModule\<close> and \<open>TraceModule\<close>,
  \<open>self.platforms\<close> in \<open>UsernameModule\<close>. \<open>log\<close> is what \<open>self.logger\<close> has been given, oldest
  first; lines logged by the worker threads are placed where the probe is submitted.
\<close>

record session =
  target :: "string option"
  output_folder :: "string option"
  results :: pydict
  log :: "log_entry list"

record service_module = session +
  services :: "(string \<times> string) list"

record username_module = session +
  platforms :: "(string \<times> string) list"

definition logger :: "level \<Rightarrow> string \<Rightarrow> 'a session_scheme \<Rightarrow> 'a session_scheme" where
  "logger lv s m = m\<lparr>log := log m @ [(lv, s)]\<rparr>"

text \<open>Python truthiness of an \<open>Optional[str]\<close>: \<open>None\<close> and \<open>''\<close> are false.\<close>

fun truthy :: "string option \<Rightarrow> bool" where
  "truthy None = False"
| "truthy (Some s) = (s \<noteq> [])"

section \<open>The probes of \<open>EmailModule\<close>\<close>

text \<open>
  What running a probe gives: the lines it logs, the external calls it makes, and the
  value it returns (\<open>None\<close> is Python's \<open>None\<close>). Each probe wraps its body in
  \<open>try: ... except Exception\<close> and returns from the handler, so none of them raises.
\<close>

datatype io_call = HttpGet string | HttpHead string | GetHostByAddr string | ConnectEx string int

record probe_out =
  logged :: "log_entry list"
  io :: "io_call list"
  val :: "pydict option"

definition EmailModule_setup_email_services :: "(string \<times> string) list" where
  "EmailModule_setup_email_services =
     [(''haveibeenpwned'', ''https://haveibeenpwned.com/api/v3/breachedaccount''),
      (''emailrep'', ''https://emailrep.io''),
      (''hunter_io'', ''https://api.hunter.io/v2/email-verifier''),
      (''clearbit'', ''https://clearbit.com/api/v1/people/email'')]"

text \<open>
  The shape shared by the HTTP probes (\<open>_check_breaches\<close>, \<open>_check_reputation\<close>,
  \<open>_geoip_lookup\<close>, \<open>_asn_lookup\<close>): a GET of \<open>url\<close>; status 200 gives the decoded body under
  the probe's key; any other status gives the placeholder; an exception of the request
  or of \<open>response.json()\<close> is logged as a warning and gives the placeholder too.
\<close>

definition http_probe :: "world \<Rightarrow> string \<Rightarrow> string \<Rightarrow> string \<Rightarrow> json \<Rightarrow> probe_out" where
  "http_probe w url key failmsg placeholder =
     (case http_get w url of
        NetFail e \<Rightarrow>
          \<lparr>logged = [(WARNING, failmsg @ exc_str e)], io = [HttpGet url],
           val = Some [(key, placeholder)]\<rparr>
      | Reply status body \<Rightarrow>
          if status = 200 then
            (case body of
               Inr j \<Rightarrow> \<lparr>logged = [], io = [HttpGet url], val = Some [(key, j)]\<rparr>
             | Inl e \<Rightarrow>
                 \<lparr>logged = [(WARNING, failmsg @ exc_str e)], io = [HttpGet url],
                  val = Some [(key, placeholder)]\<rparr>)
          else \<lparr>logged = [], io = [HttpGet url], val = Some [(key, placeholder)]\<rparr>)"

text \<open>
  \<open>self.services[name]\<close> is read inside the \<open>try\<close>: a missing key is a \<open>KeyError\<close>, caught
  like the rest (\<open>str\<close> of a \<open>KeyError\<close> is the quoted key).
\<close>

definition service_probe ::
  "world \<Rightarrow> (string \<times> string) list \<Rightarrow> string \<Rightarrow> string \<Rightarrow> string \<Rightarrow> string \<Rightarrow> json \<Rightarrow> probe_out" where
  "service_probe w svc name suffix key failmsg placeholder =
     (case map_of svc name of
        None \<Rightarrow>
          \<lparr>logged = [(WARNING, failmsg @ [CHR 0x27] @ name @ [CHR 0x27])], io = [],
           val = Some [(key, placeholder)]\<rparr>
      | Some base \<Rightarrow> http_probe w (base @ suffix) key failmsg placeholder)"

definition EmailModule_check_breaches ::
  "world \<Rightarrow> (string \<times> string) list \<Rightarrow> string \<Rightarrow> probe_out" where
  "EmailModule_check_breaches w svc email =
     service_probe w svc ''haveibeenpwned'' (''/'' @ email) ''breaches''
       ''Breach check failed: '' (JArr [])"

definition EmailModule_check_reputation ::
  "world \<Rightarrow> (string \<times> string) list \<Rightarrow> string \<Rightarrow> probe_out" where
  "EmailModule_check_reputation w svc email =
     service_probe w svc ''emailrep'' (''/'' @ email) ''reputation''
       ''Reputation check failed: '' (JObj [])"

text \<open>
  The two simulated probes: the body of the \<open>try\<close> is the \<open>return\<close> of a literal, so the
  handler is never entered; nothing is read from the world or from \<open>self\<close>.
\<close>

definition EmailModule_verify_email ::
  "world \<Rightarrow> (string \<times> string) list \<Rightarrow> string \<Rightarrow> probe_out" where
  "EmailModule_verify_email w svc email =
     \<lparr>logged = [], io = [],
      val = Some [(''verification'',
                   JObj [(''valid'', JBool True), (''deliverable'', JBool True),
                         (''risk_score'', JFloat 15 2)])]\<rparr>"

definition EmailModule_clearbit_enrichment ::
  "world \<Rightarrow> (string \<times> string) list \<Rightarrow> string \<Rightarrow> probe_out" where
  "EmailModule_clearbit_enrichment w svc email =
     \<lparr>logged = [], io = [],
      val = Some [(''enrichment'',
                   JObj [(''person'',
                          JObj [(''email'', JStr email), (''name'', JStr ''Data Enriched'')])])]\<rparr>"

section \<open>Futures and the wait loop of \<open>execute\<close>\<close>

text \<open>
  A future of the thread pool: when it is done (seconds from the start of the wait loop;
  \<open>None\<close>: never) and what \<open>result()\<close> then gives: the probe's value, or the exception the
  probe raised.
\<close>

record future =
  done_at :: "nat option"
  outcome :: "exc + pydict option"

definition submit :: "world \<Rightarrow> string \<Rightarrow> probe_out \<Rightarrow> future" where
  "submit w label out = \<lparr>done_at = done_time w label, outcome = Inr (val out)\<rparr>"

definition TimeoutError :: exc where
  "TimeoutError = Exc ''TimeoutError'' []"

text \<open>
  \<open>future.result(timeout=t)\<close> called at clock \<open>clk\<close>: the clock after the call and what the
  call gives. A future done by the deadline gives its outcome (at once when it is done
  already); otherwise the call raises \<open>TimeoutError\<close> at the deadline.
\<close>

definition future_result :: "nat \<Rightarrow> nat \<Rightarrow> future \<Rightarrow> nat \<times> (exc + pydict option)" where
  "future_result clk t f =
     (case done_at f of
        None \<Rightarrow> (clk + t, Inl TimeoutError)
      | Some d \<Rightarrow> if d \<le> clk + t then (max clk d, outcome f) else (clk + t, Inl TimeoutError))"

text \<open>
  The loop
  \<^verbatim>\<open>
    for future in futures:
        try:
            result = future.result(timeout=t)
            [if result:]
                self.results.update(result)
        except Exception as e:
            self.logger.error(f"<prefix>{e}")
  \<close>
  over the futures in the order of the dict, which is the order of submission.
  \<open>guarded\<close> says whether the \<open>if result:\<close> is there (\<open>UsernameModule\<close>); without it,
  \<open>update(None)\<close> raises a \<open>TypeError\<close> inside the \<open>try\<close>.
\<close>

definition NoneType_msg :: string where
  "NoneType_msg = [CHR 0x27] @ ''NoneType'' @ [CHR 0x27] @ '' object is not iterable''"

fun collect ::
  "nat \<Rightarrow> string \<Rightarrow> bool \<Rightarrow> nat \<Rightarrow> 'a session_scheme \<Rightarrow> future list \<Rightarrow> nat \<times> 'a session_scheme" where
  "collect t pre guarded clk m [] = (clk, m)"
| "collect t pre guarded clk m (f # fs) =
     (case future_result clk t f of
        (clk', Inl e) \<Rightarrow> collect t pre guarded clk' (logger ERROR (pre @ exc_str e) m) fs
      | (clk', Inr None) \<Rightarrow>
          if guarded then collect t pre guarded clk' m fs
          else collect t pre guarded clk' (logger ERROR (pre @ NoneType_msg) m) fs
      | (clk', Inr (Some d)) \<Rightarrow>
          if guarded \<and> d = [] then collect t pre guarded clk' m fs
          else collect t pre guarded clk' (m\<lparr>results := dict_update (results m) d\<rparr>) fs)"

text \<open>
  Leaving the \<open>with ThreadPoolExecutor(...)\<close> block calls \<open>shutdown(wait=True)\<close>, which
  returns only when every submitted probe has finished.
\<close>

definition pool_drains :: "future list \<Rightarrow> bool" where
  "pool_drains fs = (\<not> list_ex (\<lambda>f. done_at f = None) fs)"

section \<open>Files\<close>

definition digit :: "nat \<Rightarrow> char" where
  "digit n = ''0123456789'' ! (n mod 10)"

text \<open>\<open>zpad k n\<close>: the last \<open>k\<close> decimal digits of \<open>n\<close>, as \<open>%m\<close>, \<open>%d\<close>, \<open>%H\<close>, \<open>%M\<close>, \<open>%S\<close>
  (two) and \<open>%Y\<close> (four) print the fields of a date.\<close>

fun zpad :: "nat \<Rightarrow> nat \<Rightarrow> string" where
  "zpad 0 n = []"
| "zpad (Suc k) n = zpad k (n div 10) @ [digit n]"

text \<open>
  \<open>strftime('%Y%m%d_%H%M%S')\<close>, for the years of four digits (1000 to 9999); how \<open>%Y\<close> prints
  an earlier year depends on the platform.
\<close>

definition strftime :: "datetime \<Rightarrow> string" where
  "strftime d =
     zpad 4 (year d) @ zpad 2 (month d) @ zpad 2 (day d) @ ''_'' @
     zpad 2 (hour d) @ zpad 2 (minute d) @ zpad 2 (second d)"

text \<open>\<open>str(n)\<close> of a natural number.\<close>

function show_nat :: "nat \<Rightarrow> string" where
  "show_nat n = (if n < 10 then [digit n] else show_nat (n div 10) @ [digit n])"
  by pat_completeness auto
termination
  by (relation "measure id") auto

declare show_nat.simps [simp del]

text \<open>\<open>os.path.join(folder, name)\<close> for a relative \<open>name\<close>.\<close>

definition path_join :: "string \<Rightarrow> string \<Rightarrow> string" where
  "path_join folder name =
     (if folder = [] then name
      else if last folder = CHR ''/'' then folder @ name
      else folder @ ''/'' @ name)"

text \<open>\<open>os.makedirs(path, exist_ok=True)\<close>\<close>

definition makedirs :: "world \<Rightarrow> string \<Rightarrow> exc + world" where
  "makedirs w path =
     (case makedirs_fault w path of
        Some e \<Rightarrow> Inl e
      | None \<Rightarrow>
          (case disk w path of
             Some es \<Rightarrow> Inr w
           | None \<Rightarrow> Inr (w\<lparr>disk := (disk w)(path := Some [])\<rparr>)))"

text \<open>
  \<^verbatim>\<open>
    with open(log_file, 'w') as f:
        json.dump(self.results, f, indent=2)
  \<close>
  The world after the statement and the exception it raised, if any. \<open>open\<close> in mode
  \<open>'w'\<close> creates the file or empties the one of that name.
\<close>

definition FileNotFoundError :: exc where
  "FileNotFoundError = Exc ''FileNotFoundError'' ''[Errno 2] No such file or directory''"

definition write_json :: "world \<Rightarrow> string \<Rightarrow> string \<Rightarrow> pydict \<Rightarrow> world \<times> exc option" where
  "write_json w folder name d =
     (case disk w folder of
        None \<Rightarrow> (w, Some FileNotFoundError)
      | Some es \<Rightarrow>
          (case write_fault w folder name of
             Some (OpenFails e) \<Rightarrow> (w, Some e)
           | Some (DumpFails e) \<Rightarrow>
               (w\<lparr>disk := (disk w)(folder := Some (AList.update name Truncated es))\<rparr>, Some e)
           | None \<Rightarrow>
               (w\<lparr>disk := (disk w)(folder := Some (AList.update name (Dump d) es))\<rparr>, None)))"

text \<open>
  \<open>_save_results\<close> of \<open>EmailModule\<close> and \<open>TraceModule\<close>, which differ in the prefix of the
  file name. \<open>os.path.join\<close> of a folder that is \<open>None\<close> raises a \<open>TypeError\<close> outside the
  \<open>try\<close>; \<open>execute\<close> sets the folder before it gets here.
\<close>

definition join_None :: exc where
  "join_None = Exc ''TypeError'' ''expected str, bytes or os.PathLike object, not NoneType''"

definition save_timestamped ::
  "string \<Rightarrow> world \<Rightarrow> 'a session_scheme \<Rightarrow> exc + world \<times> 'a session_scheme" where
  "save_timestamped prefix w m =
     (if results m = [] then Inr (w, logger WARNING ''No results to save'' m)
      else
        (case output_folder m of
           None \<Rightarrow> Inl join_None
         | Some folder \<Rightarrow>
             (let name = prefix @ strftime (now w) @ ''.json'';
                  log_file = path_join folder name
              in case write_json w folder name (results m) of
                   (w', None) \<Rightarrow> Inr (w', logger INFO (''Results saved to '' @ log_file) m)
                 | (w', Some e) \<Rightarrow>
                     Inr (w', logger ERROR (''Failed to save results: '' @ exc_str e) m))))"

definition EmailModule_save_results ::
  "world \<Rightarrow> 'a session_scheme \<Rightarrow> exc + world \<times> 'a session_scheme" where
  "EmailModule_save_results = save_timestamped ''EmailLog_''"

definition TraceModule_save_results ::
  "world \<Rightarrow> 'a session_scheme \<Rightarrow> exc + world \<times> 'a session_scheme" where
  "TraceModule_save_results = save_timestamped ''TraceLog_''"

section \<open>The methods the three classes share\<close>

text \<open>
  \<open>output(folder_path)\<close> (\<open>output\<close> is a keyword here): the folder is created first; the attribute is set only when
  that worked; a failure is logged and absorbed.
\<close>

definition output_folder_set :: "string \<Rightarrow> world \<Rightarrow> 'a session_scheme \<Rightarrow> world \<times> 'a session_scheme" where
  "output_folder_set folder_path w m =
     (case makedirs w folder_path of
        Inr w' \<Rightarrow>
          (w', logger INFO (''Output folder set: '' @ folder_path)
                 (m\<lparr>output_folder := Some folder_path\<rparr>))
      | Inl e \<Rightarrow> (w, logger ERROR (''Failed to create output folder: '' @ exc_str e) m))"

text \<open>
  The default folder of \<open>execute\<close>:
  \<^verbatim>\<open>
    if not self.output_folder:
        self.output_folder = "./..._results"
        os.makedirs(self.output_folder, exist_ok=True)
  \<close>
  Nothing catches what \<open>os.makedirs\<close> raises here.
\<close>

definition default_folder ::
  "string \<Rightarrow> world \<Rightarrow> 'a session_scheme \<Rightarrow> (world \<times> 'a session_scheme) run" where
  "default_folder name w m =
     (if truthy (output_folder m) then Done (w, m)
      else
        (case makedirs w name of
           Inl e \<Rightarrow> Raised e (w, m\<lparr>output_folder := Some name\<rparr>)
         | Inr w' \<Rightarrow> Done (w', m\<lparr>output_folder := Some name\<rparr>)))"

text \<open>
  The rest of \<open>execute\<close> once the futures are submitted: the wait loop inside the \<open>with\<close>
  block, leaving the block, \<open>self._save_results()\<close> and the closing log line. The
  parameters are what differs between the classes: the timeout of \<open>result\<close>, the prefix
  of the error line, the \<open>if result:\<close>, \<open>_save_results\<close>, and the closing line.
\<close>

definition await_and_save ::
  "nat \<Rightarrow> string \<Rightarrow> bool \<Rightarrow>
   (world \<Rightarrow> 'a session_scheme \<Rightarrow> exc + world \<times> 'a session_scheme) \<Rightarrow>
   ('a session_scheme \<Rightarrow> string) \<Rightarrow>
   world \<Rightarrow> 'a session_scheme \<Rightarrow> future list \<Rightarrow> (world \<times> 'a session_scheme) run" where
  "await_and_save t pre guarded save closing w m futures =
     (let m1 = snd (collect t pre guarded 0 m futures)
      in if \<not> pool_drains futures then Hangs
         else
           (case save w m1 of
              Inl e \<Rightarrow> Raised e (w, m1)
            | Inr (w', m2) \<Rightarrow> Done (w', logger INFO (closing m2) m2)))"

text \<open>
  \<open>notify()\<close>: the call of \<open>plyer\<close>'s \<open>notification.notify\<close> stands in the method body with
  no \<open>try\<close> around it.
\<close>

definition notify :: "string \<Rightarrow> string \<Rightarrow> world \<Rightarrow> 'a session_scheme \<Rightarrow> 'a session_scheme run" where
  "notify title message w m =
     (case notify_fault w title message of
        Some e \<Rightarrow> Raised e m
      | None \<Rightarrow> Done (logger INFO ''Notification sent'' m))"

section \<open>\<open>EmailModule\<close>\<close>

definition EmailModule_init :: service_module where
  "EmailModule_init =
     \<lparr>target = None, output_folder = None, results = [],
      log = [(INFO, ''Email reconnaissance services initialized'')],
      services = EmailModule_setup_email_services\<rparr>"

text \<open>
  \<open>re.match\<close> of a pattern that is a sequence of character classes, each taken once
  (\<open>One\<close>) or any number of times (\<open>Many\<close>), closed by \<open>$\<close>, which matches at the end of the
  string and before a newline that ends the string.
\<close>

datatype atom = One "char \<Rightarrow> bool" | Many "char \<Rightarrow> bool"

fun re_match :: "atom list \<Rightarrow> string \<Rightarrow> bool" where
  "re_match [] s = (s = [] \<or> s = [CHR 0x0A])"
| "re_match (One p # r) [] = False"
| "re_match (One p # r) (c # s) = (p c \<and> re_match r s)"
| "re_match (Many p # r) [] = re_match r []"
| "re_match (Many p # r) (c # s) = ((p c \<and> re_match (Many p # r) s) \<or> re_match r (c # s))"

definition alpha :: "char \<Rightarrow> bool" where
  "alpha c = (c \<in> set ''abcdefghijklmnopqrstuvwxyzABCDEFGHIJKLMNOPQRSTUVWXYZ'')"

definition alnum :: "char \<Rightarrow> bool" where
  "alnum c = (alpha c \<or> c \<in> set ''0123456789'')"

text \<open>\<^verbatim>\<open>^[a-zA-Z0-9._%+-]+@[a-zA-Z0-9.-]+\.[a-zA-Z]{2,}$\<close>\<close>

definition local_part :: "char \<Rightarrow> bool" where
  "local_part c = (alnum c \<or> c \<in> set ''._%+-'')"

definition domain_part :: "char \<Rightarrow> bool" where
  "domain_part c = (alnum c \<or> c \<in> set ''.-'')"

definition email_pattern :: "atom list" where
  "email_pattern =
     [One local_part, Many local_part, One (\<lambda>c. c = CHR ''@''),
      One domain_part, Many domain_part, One (\<lambda>c. c = CHR ''.''),
      One alpha, One alpha, Many alpha]"

definition EmailModule_validate_email :: "string \<Rightarrow> bool" where
  "EmailModule_validate_email email = re_match email_pattern email"

definition EmailModule_find :: "string \<Rightarrow> 'a session_scheme \<Rightarrow> 'a session_scheme" where
  "EmailModule_find email m =
     (if \<not> EmailModule_validate_email email
      then logger ERROR (''Invalid email format: '' @ email) m
      else logger INFO (''Target email set: '' @ email) (m\<lparr>target := Some email\<rparr>))"

text \<open>The four probes in the order of the \<open>futures\<close> dict of \<open>execute\<close>.\<close>

definition EmailModule_probes ::
  "(string \<times> (world \<Rightarrow> (string \<times> string) list \<Rightarrow> string \<Rightarrow> probe_out)) list" where
  "EmailModule_probes =
     [(''breaches'', EmailModule_check_breaches),
      (''reputation'', EmailModule_check_reputation),
      (''verification'', EmailModule_verify_email),
      (''enrichment'', EmailModule_clearbit_enrichment)]"

definition EmailModule_execute ::
  "world \<Rightarrow> service_module \<Rightarrow> (world \<times> service_module) run" where
  "EmailModule_execute w m =
     (if \<not> truthy (target m) then Done (w, logger ERROR ''No target email specified'' m)
      else
        (case target m of
           None \<Rightarrow> Done (w, logger ERROR ''No target email specified'' m)
         | Some email \<Rightarrow>
             (case default_folder ''./email_results'' w m of
                Hangs \<Rightarrow> Hangs
              | Raised e s \<Rightarrow> Raised e s
              | Done (w1, m1) \<Rightarrow>
                  (let m2 = logger INFO (''Starting email reconnaissance on: '' @ email) m1;
                       outs = map (\<lambda>(label, probe). (label, probe w1 (services m2) email))
                                EmailModule_probes;
                       m3 = m2\<lparr>log := log m2 @ concat (map (logged \<circ> snd) outs)\<rparr>;
                       futures = map (\<lambda>(label, out). submit w1 label out) outs
                   in await_and_save 10 ''Service error: '' False EmailModule_save_results
                        (\<lambda>_. ''Email reconnaissance completed'') w1 m3 futures))))"

definition EmailModule_notify :: "world \<Rightarrow> 'a session_scheme \<Rightarrow> 'a session_scheme run" where
  "EmailModule_notify = notify ''Email Module Complete'' ''Done! Found Info About Suspect''"

section \<open>\<open>TraceModule\<close>\<close>

definition TraceModule_setup_trace_services :: "(string \<times> string) list" where
  "TraceModule_setup_trace_services =
     [(''ipqualityscore'', ''https://api.abuseipdb.com/api/v2/check''),
      (''maxmind'', ''https://geoip.maxmind.com''),
      (''ipinfo'', ''https://ipinfo.io''),
      (''abuseipdb'', ''https://api.abuseipdb.com/api/v2/check'')]"

definition TraceModule_init :: service_module where
  "TraceModule_init =
     \<lparr>target = None, output_folder = None, results = [],
      log = [(INFO, ''Trace services initialized'')],
      services = TraceModule_setup_trace_services\<rparr>"

text \<open>\<open>_validate_ip\<close>: whether \<open>ipaddress.ip_address\<close> accepts the string.\<close>

definition TraceModule_validate_ip :: "world \<Rightarrow> string \<Rightarrow> bool" where
  "TraceModule_validate_ip w ip_address = ip_address_ok w ip_address"

definition TraceModule_target :: "world \<Rightarrow> string \<Rightarrow> 'a session_scheme \<Rightarrow> 'a session_scheme" where
  "TraceModule_target w ip_address m =
     (if \<not> TraceModule_validate_ip w ip_address
      then logger ERROR (''Invalid IP address: '' @ ip_address) m
      else logger INFO (''Target IP set: '' @ ip_address) (m\<lparr>target := Some ip_address\<rparr>))"

definition TraceModule_geoip_lookup ::
  "world \<Rightarrow> (string \<times> string) list \<Rightarrow> string \<Rightarrow> probe_out" where
  "TraceModule_geoip_lookup w svc ip_address =
     service_probe w svc ''ipinfo'' (''/'' @ ip_address @ ''/json'') ''geolocation''
       ''Geolocation lookup failed: '' (JObj [])"

definition TraceModule_asn_lookup ::
  "world \<Rightarrow> (string \<times> string) list \<Rightarrow> string \<Rightarrow> probe_out" where
  "TraceModule_asn_lookup w svc ip_address =
     http_probe w (''https://asn.cymru.com/cgi-bin/whois.cgi?ip='' @ ip_address @ ''&format=json'')
       ''asn_info'' ''ASN lookup failed: '' (JObj [])"

text \<open>The simulated probe of this class: again the \<open>return\<close> of a literal.\<close>

definition TraceModule_abuse_check ::
  "world \<Rightarrow> (string \<times> string) list \<Rightarrow> string \<Rightarrow> probe_out" where
  "TraceModule_abuse_check w svc ip_address =
     \<lparr>logged = [], io = [],
      val = Some [(''abuse_report'',
                   JObj [(''is_whitelisted'', JBool False), (''abuseConfidenceScore'', JInt 0),
                         (''usageType'', JStr ''Content Delivery Network'')])]\<rparr>"

definition TraceModule_dns_reverse ::
  "world \<Rightarrow> (string \<times> string) list \<Rightarrow> string \<Rightarrow> probe_out" where
  "TraceModule_dns_reverse w svc ip_address =
     (case gethostbyaddr w ip_address of
        Inr hostname \<Rightarrow>
          \<lparr>logged = [], io = [GetHostByAddr ip_address],
           val = Some [(''dns_reverse'', JObj [(''hostname'', JStr hostname)])]\<rparr>
      | Inl e \<Rightarrow>
          \<lparr>logged = [(WARNING, ''Reverse DNS lookup failed: '' @ exc_str e)],
           io = [GetHostByAddr ip_address],
           val = Some [(''dns_reverse'', JObj [(''hostname'', JStr ''Unknown'')])]\<rparr>)"

text \<open>
  \<open>_port_scan\<close>: one \<open>connect_ex\<close> per port of \<open>common_ports\<close>; result 0 records the port;
  an exception is passed over.
\<close>

definition common_ports :: "int list" where
  "common_ports = [21, 22, 23, 25, 53, 80, 110, 143, 443, 3306, 5432, 8080]"

fun scan_ports :: "world \<Rightarrow> string \<Rightarrow> int list \<Rightarrow> int list \<Rightarrow> int list" where
  "scan_ports w ip_address [] open_ports = open_ports"
| "scan_ports w ip_address (port # ports) open_ports =
     (case connect_ex w ip_address port of
        Inr result \<Rightarrow>
          if result = 0 then scan_ports w ip_address ports (open_ports @ [port])
          else scan_ports w ip_address ports open_ports
      | Inl e \<Rightarrow> scan_ports w ip_address ports open_ports)"

definition TraceModule_port_scan ::
  "world \<Rightarrow> (string \<times> string) list \<Rightarrow> string \<Rightarrow> probe_out" where
  "TraceModule_port_scan w svc ip_address =
     \<lparr>logged = [], io = map (ConnectEx ip_address) common_ports,
      val = Some [(''open_ports'', JArr (map JInt (scan_ports w ip_address common_ports [])))]\<rparr>"

definition TraceModule_probes ::
  "(string \<times> (world \<Rightarrow> (string \<times> string) list \<Rightarrow> string \<Rightarrow> probe_out)) list" where
  "TraceModule_probes =
     [(''geolocation'', TraceModule_geoip_lookup),
      (''asn_info'', TraceModule_asn_lookup),
      (''abuse_report'', TraceModule_abuse_check),
      (''dns_reverse'', TraceModule_dns_reverse),
      (''open_ports'', TraceModule_port_scan)]"

definition TraceModule_execute ::
  "world \<Rightarrow> service_module \<Rightarrow> (world \<times> service_module) run" where
  "TraceModule_execute w m =
     (if \<not> truthy (target m) then Done (w, logger ERROR ''No target IP specified'' m)
      else
        (case target m of
           None \<Rightarrow> Done (w, logger ERROR ''No target IP specified'' m)
         | Some ip \<Rightarrow>
             (case default_folder ''./trace_results'' w m of
                Hangs \<Rightarrow> Hangs
              | Raised e s \<Rightarrow> Raised e s
              | Done (w1, m1) \<Rightarrow>
                  (let m2 = logger INFO (''Starting IP trace on: '' @ ip) m1;
                       outs = map (\<lambda>(label, probe). (label, probe w1 (services m2) ip))
                                TraceModule_probes;
                       m3 = m2\<lparr>log := log m2 @ concat (map (logged \<circ> snd) outs)\<rparr>;
                       futures = map (\<lambda>(label, out). submit w1 label out) outs
                   in await_and_save 15 ''Trace service error: '' False TraceModule_save_results
                        (\<lambda>_. ''IP trace completed'') w1 m3 futures))))"

definition TraceModule_notify :: "world \<Rightarrow> 'a session_scheme \<Rightarrow> 'a session_scheme run" where
  "TraceModule_notify = notify ''Trace Module Complete'' ''Done! IP Traced And Data Sent!''"

section \<open>\<open>UsernameModule\<close>\<close>

text \<open>
  The table of \<open>_setup_platforms\<close>, in the order of the dict literal (a template with \<open>@\<close> before the
  field is written in two pieces). The literal names
  \<open>viber\<close> twice with the same template; a dict keeps the first place of a key.
\<close>

definition UsernameModule_setup_platforms :: "(string \<times> string) list" where
  "UsernameModule_setup_platforms =
     [
      (''facebook'', ''https://www.facebook.com/{0}''),
      (''twitter'', ''https://www.twitter.com/{0}''),
      (''instagram'', ''https://www.instagram.com/{0}''),
      (''tiktok'', ''https://www.tiktok.com/@'' @ ''{0}''),
      (''snapchat'', ''https://www.snapchat.com/add/{0}''),
      (''pinterest'', ''https://www.pinterest.com/{0}''),
      (''linkedin'', ''https://www.linkedin.com/in/{0}''),
      (''reddit'', ''https://www.reddit.com/user/{0}''),
      (''youtube'', ''https://www.youtube.com/@'' @ ''{0}''),
      (''twitch'', ''https://www.twitch.tv/{0}''),
      (''telegram'', ''https://t.me/{0}''),
      (''discord'', ''https://discord.com/users/{0}''),
      (''whatsapp'', ''https://wa.me/{0}''),
      (''viber'', ''https://viber.click/{0}''),
      (''signal'', ''https://signal.me/#p/{0}''),
      (''flickr'', ''https://www.flickr.com/photos/{0}''),
      (''vimeo'', ''https://www.vimeo.com/{0}''),
      (''dailymotion'', ''https://www.dailymotion.com/{0}''),
      (''rumble'', ''https://rumble.com/{0}''),
      (''odysee'', ''https://odysee.com/@'' @ ''{0}''),
      (''medium'', ''https://medium.com/@'' @ ''{0}''),
      (''hashnode'', ''https://hashnode.com/@'' @ ''{0}''),
      (''wordpress'', ''https://{0}.wordpress.com''),
      (''substack'', ''https://substack.com/@'' @ ''{0}''),
      (''patreon'', ''https://www.patreon.com/{0}''),
      (''steam'', ''https://steamcommunity.com/search/users/{0}''),
      (''xbox'', ''https://www.xbox.com/en-US/xbox-live/friends/search/{0}''),
      (''psn'', ''https://www.playstation.com/en-us/psn/{0}''),
      (''epicgames'', ''https://www.epicgames.com/site/en-US/home/{0}''),
      (''fortnite'', ''https://fortnite.gg/en/profile/{0}''),
      (''github'', ''https://www.github.com/{0}''),
      (''gitlab'', ''https://www.gitlab.com/{0}''),
      (''bitbucket'', ''https://www.bitbucket.org/{0}''),
      (''stackoverflow'', ''https://stackoverflow.com/users/{0}''),
      (''devto'', ''https://dev.to/{0}''),
      (''tinder'', ''https://tinder.com/@'' @ ''{0}''),
      (''bumble'', ''https://bumble.com/{0}''),
      (''okcupid'', ''https://www.okcupid.com/profile/{0}''),
      (''hinge'', ''https://hinge.co/{0}''),
      (''meetup'', ''https://www.meetup.com/{0}''),
      (''ebay'', ''https://www.ebay.com/usr/{0}''),
      (''amazon'', ''https://www.amazon.com/s?k={0}''),
      (''etsy'', ''https://www.etsy.com/shop/{0}''),
      (''mercari'', ''https://www.mercari.com/u/{0}''),
      (''depop'', ''https://www.depop.com/{0}''),
      (''coinbase'', ''https://www.coinbase.com/{0}''),
      (''kraken'', ''https://www.kraken.com/{0}''),
      (''binance'', ''https://www.binance.com/{0}''),
      (''opensea'', ''https://opensea.io/{0}''),
      (''raydium'', ''https://raydium.io/fusion/{0}''),
      (''strava'', ''https://www.strava.com/athletes/{0}''),
      (''myfitnesspal'', ''https://www.myfitnesspal.com/profile/{0}''),
      (''fitbit'', ''https://www.fitbit.com/user/{0}''),
      (''peloton'', ''https://www.peloton.com/profile/{0}''),
      (''spotify'', ''https://open.spotify.com/user/{0}''),
      (''soundcloud'', ''https://soundcloud.com/{0}''),
      (''bandcamp'', ''https://{0}.bandcamp.com''),
      (''anchor'', ''https://anchor.fm/{0}''),
      (''apple_music'', ''https://music.apple.com/profile/{0}''),
      (''airbnb'', ''https://www.airbnb.com/users/show/{0}''),
      (''booking'', ''https://www.booking.com/profile.en.html?{0}''),
      (''tripadvisor'', ''https://www.tripadvisor.com/members/{0}''),
      (''foursquare'', ''https://foursquare.com/{0}''),
      (''indeed'', ''https://www.indeed.com/profile/{0}''),
      (''glassdoor'', ''https://www.glassdoor.com/Profile/profile.htm?{0}''),
      (''angellist'', ''https://angel.co/{0}''),
      (''producthunt'', ''https://www.producthunt.com/@'' @ ''{0}''),
      (''quora'', ''https://www.quora.com/profile/{0}''),
      (''nextdoor'', ''https://nextdoor.com/member/{0}''),
      (''ycombinator'', ''https://news.ycombinator.com/user?id={0}''),
      (''dribbble'', ''https://dribbble.com/{0}''),
      (''behance'', ''https://www.behance.net/{0}''),
      (''aol'', ''https://aim.aol.com/{0}''),
      (''icq'', ''https://www.icq.com/{0}''),
      (''skype'', ''https://web.skype.com/{0}''),
      (''line'', ''https://line.me/R/ti/p/{0}''),
      (''wechat'', ''https://weixin.qq.com/{0}''),
      (''vk'', ''https://vk.com/{0}''),
      (''ok'', ''https://ok.ru/{0}''),
      (''weibo'', ''https://www.weibo.com/u/{0}''),
      (''qq'', ''https://qq.com/{0}'')]"

definition UsernameModule_init :: username_module where
  "UsernameModule_init =
     \<lparr>target = None, output_folder = None, results = [],
      log = [(INFO, ''Initialized 81 social media platforms'')],
      platforms = UsernameModule_setup_platforms\<rparr>"

text \<open>\<open>search(username)\<close> stores whatever it is given.\<close>

definition UsernameModule_search :: "string \<Rightarrow> 'a session_scheme \<Rightarrow> 'a session_scheme" where
  "UsernameModule_search username m =
     logger INFO (''Target username set: '' @ username) (m\<lparr>target := Some username\<rparr>)"

text \<open>
  \<open>url_template.format(username)\<close> for templates made of text, \<open>{0}\<close>, \<open>{{\<close> and \<open>}}\<close>, as
  those of the table are; \<open>Inl\<close> carries the text of the \<open>ValueError\<close> that a lone brace
  raises. Other replacement fields (\<open>{}\<close>, \<open>{0!r}\<close>, \<open>{name}\<close>) are outside the model, which
  reads them as a lone opening brace.
\<close>

definition single_brace :: "char \<Rightarrow> string" where
  "single_brace c = ''Single '' @ [CHR 0x27, c, CHR 0x27] @ '' encountered in format string''"

function format0 :: "string \<Rightarrow> string \<Rightarrow> string + string" where
  "format0 t u =
     (case t of
        [] \<Rightarrow> Inr []
      | c # r \<Rightarrow>
          if c = CHR ''{'' then
            (if take 2 r = ''0}'' then map_sum id ((@) u) (format0 (drop 2 r) u)
             else if take 1 r = ''{'' then map_sum id ((#) CHR ''{'') (format0 (drop 1 r) u)
             else Inl (single_brace CHR ''{''))
          else if c = CHR ''}'' then
            (if take 1 r = ''}'' then map_sum id ((#) CHR ''}'') (format0 (drop 1 r) u)
             else Inl (single_brace CHR ''}''))
          else map_sum id ((#) c) (format0 r u))"
  by pat_completeness auto
termination
  by (relation "measure (\<lambda>(t, u). length t)") auto

declare format0.simps [simp del]

text \<open>
  The classes of \<open>requests.exceptions\<close> that \<open>except Timeout\<close> and \<open>except ConnectionError\<close>
  catch: the class itself and its subclasses.
\<close>

definition is_Timeout :: "exc \<Rightarrow> bool" where
  "is_Timeout e = (case e of Exc cls msg \<Rightarrow> cls \<in> set [''Timeout'', ''ConnectTimeout'', ''ReadTimeout''])"

definition is_ConnectionError :: "exc \<Rightarrow> bool" where
  "is_ConnectionError e =
     (case e of Exc cls msg \<Rightarrow>
        cls \<in> set [''ConnectionError'', ''ProxyError'', ''SSLError'', ''ConnectTimeout''])"

text \<open>
  \<open>_check_platform\<close>: a HEAD request of the formatted URL; the platform is reported when
  the status is one of 200, 301, 302, 303; everything else, and every exception, ends
  in \<open>return None\<close>. \<open>self.target_username\<close> is read when the probe runs. The handlers are
  tried in the order of the source: \<open>Timeout\<close>, \<open>ConnectionError\<close>, \<open>Exception\<close>.
\<close>

definition UsernameModule_check_platform ::
  "world \<Rightarrow> string \<Rightarrow> string \<Rightarrow> string \<Rightarrow> probe_out" where
  "UsernameModule_check_platform w username platform url_template =
     (case format0 url_template username of
        Inl msg \<Rightarrow>
          \<lparr>logged = [(DEBUG, ''Error checking '' @ platform @ '': '' @ msg)],
           io = [], val = None\<rparr>
      | Inr formatted_url \<Rightarrow>
          (case http_head w formatted_url of
             NetFail e \<Rightarrow>
               \<lparr>logged = [(DEBUG,
                   if is_Timeout e then ''Timeout on '' @ platform
                   else if is_ConnectionError e then ''Connection error on '' @ platform
                   else ''Error checking '' @ platform @ '': '' @ exc_str e)],
                io = [HttpHead formatted_url], val = None\<rparr>
           | Reply status body \<Rightarrow>
               if status \<in> set [200, 301, 302, 303] then
                 \<lparr>logged = [(INFO, ''Found on '' @ platform @ '': '' @ formatted_url)],
                  io = [HttpHead formatted_url],
                  val = Some [(platform, JStr formatted_url)]\<rparr>
               else \<lparr>logged = [], io = [HttpHead formatted_url], val = None\<rparr>))"

text \<open>
  \<open>_save_results\<close> of this class names the file by the number of entries of the folder.
  \<open>os.listdir\<close> stands outside the \<open>try\<close>.
\<close>

definition listdir :: "world \<Rightarrow> string \<Rightarrow> exc + string list" where
  "listdir w folder =
     (case listdir_fault w folder of
        Some e \<Rightarrow> Inl e
      | None \<Rightarrow>
          (case disk w folder of
             None \<Rightarrow> Inl FileNotFoundError
           | Some es \<Rightarrow> Inr (map fst es)))"

definition UsernameModule_save_results ::
  "world \<Rightarrow> 'a session_scheme \<Rightarrow> exc + world \<times> 'a session_scheme" where
  "UsernameModule_save_results w m =
     (if results m = [] then Inr (w, logger WARNING ''No results to save'' m)
      else
        (case output_folder m of
           None \<Rightarrow> Inl join_None
         | Some folder \<Rightarrow>
             (case listdir w folder of
                Inl e \<Rightarrow> Inl e
              | Inr names \<Rightarrow>
                  (let name = ''Log'' @ show_nat (length names + 1) @ ''.json'';
                       log_file = path_join folder name
                   in case write_json w folder name (results m) of
                        (w', None) \<Rightarrow> Inr (w', logger INFO (''Results saved to '' @ log_file) m)
                      | (w', Some e) \<Rightarrow>
                          Inr (w', logger ERROR (''Failed to save results: '' @ exc_str e) m)))))"

definition UsernameModule_execute ::
  "world \<Rightarrow> username_module \<Rightarrow> (world \<times> username_module) run" where
  "UsernameModule_execute w m =
     (if \<not> truthy (target m) then Done (w, logger ERROR ''No target username specified'' m)
      else
        (case target m of
           None \<Rightarrow> Done (w, logger ERROR ''No target username specified'' m)
         | Some username \<Rightarrow>
             (case default_folder ''./username_results'' w m of
                Hangs \<Rightarrow> Hangs
              | Raised e s \<Rightarrow> Raised e s
              | Done (w1, m1) \<Rightarrow>
                  (let m2 = logger INFO (''Starting username reconnaissance on: '' @ username) m1;
                       outs = map (\<lambda>(platform, url).
                                     (platform, UsernameModule_check_platform w1 username platform url))
                                (platforms m2);
                       m3 = m2\<lparr>log := log m2 @ concat (map (logged \<circ> snd) outs)\<rparr>;
                       futures = map (\<lambda>(label, out). submit w1 label out) outs
                   in await_and_save 10 ''Platform check error: '' True UsernameModule_save_results
                        (\<lambda>s. ''Username reconnaissance completed. Found '' @
                              show_nat (length (results s)) @ '' matches'')
                        w1 m3 futures))))"

definition UsernameModule_notify :: "world \<Rightarrow> 'a session_scheme \<Rightarrow> 'a session_scheme run" where
  "UsernameModule_notify = notify ''Username Module Complete'' ''Done! Data Sent.''"

section \<open>Notions used to state the properties\<close>






text \<open>
  The range of the fields of a \<open>datetime\<close> that \<open>datetime.now()\<close> returns, with the years
  that \<open>%Y\<close> prints in four digits.
\<close>

definition valid_datetime :: "datetime \<Rightarrow> bool" where
  "valid_datetime d =
     (1000 \<le> year d \<and> year d \<le> 9999 \<and> 1 \<le> month d \<and> month d \<le> 12 \<and>
      1 \<le> day d \<and> day d \<le> 31 \<and> hour d < 24 \<and> minute d < 60 \<and> second d < 60 \<and>
      microsecond d < 1000000)"

text \<open>The reading of the clock down to the second.\<close>

definition to_the_second :: "datetime \<Rightarrow> nat \<times> nat \<times> nat \<times> nat \<times> nat \<times> nat" where
  "to_the_second d = (year d, month d, day d, hour d, minute d, second d)"

text \<open>What a file of a folder holds (\<open>None\<close>: no such folder, or no such file).\<close>

definition file_at :: "world \<Rightarrow> string \<Rightarrow> string \<Rightarrow> content option" where
  "file_at w folder name = (case disk w folder of None \<Rightarrow> None | Some es \<Rightarrow> map_of es name)"

text \<open>
  A GET that gives no decoded body: the request raises, \<open>json()\<close> raises, or the status
  is not 200. A service whose probe cannot succeed: its URL is missing from
  \<open>self.services\<close>, or the GET of it gives no decoded body.
\<close>

definition request_fails :: "world \<Rightarrow> string \<Rightarrow> bool" where
  "request_fails w url =
     (case http_get w url of NetFail e \<Rightarrow> True | Reply status body \<Rightarrow> isl body \<or> status \<noteq> 200)"

definition service_fails :: "world \<Rightarrow> (string \<times> string) list \<Rightarrow> string \<Rightarrow> string \<Rightarrow> bool" where
  "service_fails w svc name suffix =
     (case map_of svc name of None \<Rightarrow> True | Some base \<Rightarrow> request_fails w (base @ suffix))"

text \<open>A port on which \<open>connect_ex\<close> raises or returns an error code.\<close>

definition port_closed :: "world \<Rightarrow> string \<Rightarrow> int \<Rightarrow> bool" where
  "port_closed w ip port = (case connect_ex w ip port of Inl e \<Rightarrow> True | Inr result \<Rightarrow> result \<noteq> 0)"


subsection \<open>Worlds and sessions for the examples\<close>

text \<open>
  A machine without network: every request fails, no directory exists yet, nothing
  else goes wrong, and every probe is finished one second into the wait.
\<close>

definition offline :: world where
  "offline =
     \<lparr>disk = (\<lambda>_. None),
      now = \<lparr>year = 2024, month = 5, day = 17, hour = 9, minute = 30, second = 12,
             microsecond = 250000\<rparr>,
      makedirs_fault = (\<lambda>_. None),
      listdir_fault = (\<lambda>_. None),
      write_fault = (\<lambda>_ _. None),
      notify_fault = (\<lambda>_ _. None),
      ip_address_ok = (\<lambda>s. s = ''8.8.8.8''),
      http_get = (\<lambda>_. NetFail (Exc ''ConnectionError'' ''Network is unreachable'')),
      http_head = (\<lambda>_. NetFail (Exc ''ConnectionError'' ''Network is unreachable'')),
      gethostbyaddr = (\<lambda>_. Inl (Exc ''herror'' ''Unknown host'')),
      connect_ex = (\<lambda>_ _. Inr 101),
      done_time = (\<lambda>_. Some 1)\<rparr>"

text \<open>The same machine with the folder \<open>out\<close> in place and empty.\<close>

definition offline_out :: world where
  "offline_out = offline\<lparr>disk := (\<lambda>p. if p = ''out'' then Some [] else None)\<rparr>"

text \<open>A desktop without a notification backend.\<close>

definition no_notifier :: world where
  "no_notifier =
     offline\<lparr>notify_fault := (\<lambda>_ _. Some (Exc ''NotImplementedError'' ''No usable implementation found!''))\<rparr>"

text \<open>A folder that cannot be written to.\<close>

definition read_only_out :: world where
  "read_only_out =
     offline_out\<lparr>write_fault := (\<lambda>_ _. Some (OpenFails (Exc ''PermissionError'' ''[Errno 13] Permission denied'')))\<rparr>"

text \<open>A web on which every HEAD request is answered with status 200.\<close>

definition all_found :: world where
  "all_found =
     offline_out\<lparr>http_head := (\<lambda>_. Reply 200 (Inl (Exc ''JSONDecodeError''
                                                  ''Expecting value: line 1 column 1 (char 0)'')))\<rparr>"

text \<open>A username session that knows two platforms.\<close>

definition two_platforms :: username_module where
  "two_platforms =
     UsernameModule_init\<lparr>platforms := [(''github'', ''https://www.github.com/{0}''),
                                         (''gitlab'', ''https://www.gitlab.com/{0}'')]\<rparr>"



text \<open>A probe whose function raises, and one that is not done when the wait ends.\<close>

definition probe_raising :: future where
  "probe_raising = \<lparr>done_at = Some 1, outcome = Inl (Exc ''ValueError'' ''bad response'')\<rparr>"

definition probe_slow :: future where
  "probe_slow = \<lparr>done_at = Some 60, outcome = Inr (Some [(''y'', JInt 3)])\<rparr>"

text \<open>A session with a folder and nothing collected yet, and one holding a result.\<close>

definition blank :: session where
  "blank = \<lparr>target = Some ''x'', output_folder = Some ''out'', results = [], log = []\<rparr>"

definition holding :: "json \<Rightarrow> session" where
  "holding v = blank\<lparr>results := [(''x'', v)]\<rparr>"

text \<open>A username session with a target and a folder whose platform table is empty.\<close>

definition no_platforms :: username_module where
  "no_platforms =
     UsernameModule_init\<lparr>target := Some ''bob'', output_folder := Some ''out'', platforms := []\<rparr>"


text \<open>A fresh email session after \<open>find('a@b.co')\<close>.\<close>

definition ab_co :: service_module where
  "ab_co = EmailModule_find ''a@b.co'' EmailModule_init"


text \<open>
  The folder \<open>out\<close> one second after a run has left an artifact there, and the reading
  of the clock at that earlier run.
\<close>

definition one_second_before :: datetime where
  "one_second_before =
     \<lparr>year = 2024, month = 5, day = 17, hour = 9, minute = 30, second = 11,
      microsecond = 900000\<rparr>"

definition second_run :: world where
  "second_run =
     offline\<lparr>disk := (\<lambda>p. if p = ''out''
                           then Some [(''EmailLog_20240517_093011.json'', Dump [(''x'', JInt 1)])]
                           else None)\<rparr>"

text \<open>The folder \<open>out\<close> holding \<open>Log2.json\<close> alone (\<open>Log1.json\<close> has been removed).\<close>

definition stray_log :: world where
  "stray_log =
     offline\<lparr>disk := (\<lambda>p. if p = ''out'' then Some [(''Log2.json'', Dump [(''x'', JInt 1)])]
                           else None)\<rparr>"

text \<open>The folder \<open>out\<close> when it cannot be listed.\<close>

definition unlistable :: world where
  "unlistable =
     offline_out\<lparr>listdir_fault := (\<lambda>_. Some (Exc ''PermissionError'' ''[Errno 13] Permission denied''))\<rparr>"



section \<open>The simulated probes\<close>

text \<open>
  C10. The verification, enrichment and abuse-check probes are constant: whatever the
  world, the services table and the input, \<open>_verify_email\<close> returns exactly
  \<open>{'verification': {'valid': True, 'deliverable': True, 'risk_score': 0.15}}\<close>,
  \<open>_clearbit_enrichment\<close> returns a fixed mapping in which only \<open>person.email\<close> echoes the
  input beside the name \<open>'Data Enriched'\<close>, and \<open>_abuse_check\<close> returns a fixed report; none
  of them makes an external call, logs a failure or returns anything but its mapping.
\<close>

theorem simulated_probes_constant:
  "EmailModule_verify_email w svc x =
     \<lparr>logged = [], io = [],
      val = Some [(''verification'',
                   JObj [(''valid'', JBool True), (''deliverable'', JBool True),
                         (''risk_score'', JFloat 15 2)])]\<rparr>
   \<and> EmailModule_clearbit_enrichment w svc x =
     \<lparr>logged = [], io = [],
      val = Some [(''enrichment'',
                   JObj [(''person'', JObj [(''email'', JStr x), (''name'', JStr ''Data Enriched'')])])]\<rparr>
   \<and> TraceModule_abuse_check w svc x =
     \<lparr>logged = [], io = [],
      val = Some [(''abuse_report'',
                   JObj [(''is_whitelisted'', JBool False), (''abuseConfidenceScore'', JInt 0),
                         (''usageType'', JStr ''Content Delivery Network'')])]\<rparr>
   \<and> EmailModule_verify_email w svc x = EmailModule_verify_email w' svc' x'
   \<and> TraceModule_abuse_check w svc x = TraceModule_abuse_check w' svc' x'
   \<and> EmailModule_clearbit_enrichment w svc x = EmailModule_clearbit_enrichment w' svc' x"
  by (simp add: EmailModule_verify_email_def EmailModule_clearbit_enrichment_def
      TraceModule_abuse_check_def)

section \<open>The guard of \<open>execute\<close>\<close>

lemma save_timestamped_empty:
  "results m = [] \<Longrightarrow> save_timestamped prefix w m = Inr (w, logger WARNING ''No results to save'' m)"
  by (simp add: save_timestamped_def)

lemma UsernameModule_save_results_empty:
  "results m = [] \<Longrightarrow>
   UsernameModule_save_results w m = Inr (w, logger WARNING ''No results to save'' m)"
  by (simp add: UsernameModule_save_results_def)

lemma results_logger [simp]: "results (logger lv s m) = results m"
  by (simp add: logger_def)

lemma output_folder_logger [simp]: "output_folder (logger lv s m) = output_folder m"
  by (simp add: logger_def)

lemma target_logger [simp]: "target (logger lv s m) = target m"
  by (simp add: logger_def)

lemma log_logger [simp]: "log (logger lv s m) = log m @ [(lv, s)]"
  by (simp add: logger_def)

lemma platforms_logger [simp]: "platforms (logger lv s m) = platforms m"
  by (simp add: logger_def)

lemma services_logger [simp]: "services (logger lv s m) = services m"
  by (simp add: logger_def)

text \<open>
  C3, as the code has it. \<open>execute\<close> on a session whose target is \<open>None\<close> or empty raises
  nothing: it logs one error line and returns the session otherwise as it was, in the
  world as it was, so no probe has run and no artifact is written. An empty platform
  table is not refused either: with a target, a folder and nothing collected before,
  the run goes through the loop over no futures, finds nothing to save and closes.
\<close>

theorem execute_without_target:
  assumes "\<not> truthy (target m)" and "\<not> truthy (target u)"
    and "target v = Some name" and "name \<noteq> []" and "truthy (output_folder v)"
    and "platforms v = []" and "results v = []"
  shows "EmailModule_execute w m = Done (w, logger ERROR ''No target email specified'' m)
    \<and> TraceModule_execute w m = Done (w, logger ERROR ''No target IP specified'' m)
    \<and> UsernameModule_execute w u = Done (w, logger ERROR ''No target username specified'' u)
    \<and> UsernameModule_execute w v =
           Done (w, logger INFO ''Username reconnaissance completed. Found 0 matches''
                      (logger WARNING ''No results to save''
                         (logger INFO (''Starting username reconnaissance on: '' @ name) v)))"
proof -
  have email: "EmailModule_execute w m = Done (w, logger ERROR ''No target email specified'' m)"
    using assms(1) by (simp add: EmailModule_execute_def)
  have trace: "TraceModule_execute w m = Done (w, logger ERROR ''No target IP specified'' m)"
    using assms(1) by (simp add: TraceModule_execute_def)
  have user: "UsernameModule_execute w u = Done (w, logger ERROR ''No target username specified'' u)"
    using assms(2) by (simp add: UsernameModule_execute_def)
  have zero: "show_nat 0 = ''0''"
    by (simp add: show_nat.simps digit_def)
  have "UsernameModule_execute w v =
           Done (w, logger INFO ''Username reconnaissance completed. Found 0 matches''
                      (logger WARNING ''No results to save''
                         (logger INFO (''Starting username reconnaissance on: '' @ name) v)))"
    using assms(3-7) zero
    by (simp add: UsernameModule_execute_def default_folder_def await_and_save_def
        pool_drains_def UsernameModule_save_results_empty logger_def)
  with email trace user show ?thesis by blast
qed

theorem execute_without_target_witness:
  "\<not> truthy (target EmailModule_init) \<and> \<not> truthy (target UsernameModule_init)
   \<and> target no_platforms = Some ''bob'' \<and> truthy (output_folder no_platforms)
   \<and> platforms no_platforms = [] \<and> results no_platforms = []
   \<and> EmailModule_execute offline EmailModule_init =
        Done (offline, logger ERROR ''No target email specified'' EmailModule_init)
   \<and> TraceModule_execute offline EmailModule_init =
        Done (offline, logger ERROR ''No target IP specified'' EmailModule_init)
   \<and> UsernameModule_execute offline UsernameModule_init =
        Done (offline, logger ERROR ''No target username specified'' UsernameModule_init)
   \<and> UsernameModule_execute offline no_platforms =
        Done (offline, logger INFO ''Username reconnaissance completed. Found 0 matches''
                         (logger WARNING ''No results to save''
                            (logger INFO (''Starting username reconnaissance on: '' @ ''bob'')
                               no_platforms)))"
  using execute_without_target [of EmailModule_init UsernameModule_init no_platforms "''bob''" offline]
  by (simp add: EmailModule_init_def UsernameModule_init_def no_platforms_def)

text \<open>
  The claim as the specification words it fails: at a session without target, and at
  one with an empty platform table, \<open>execute\<close> raises nothing at all.
\<close>

theorem no_ConfigurationError_counterexample:
  "\<not> (\<exists>e s. EmailModule_execute offline EmailModule_init = Raised e s)
   \<and> \<not> (\<exists>e s. TraceModule_execute offline TraceModule_init = Raised e s)
   \<and> \<not> (\<exists>e s. UsernameModule_execute offline no_platforms = Raised e s)"
proof -
  have "EmailModule_execute offline EmailModule_init =
          Done (offline, logger ERROR ''No target email specified'' EmailModule_init)"
    by (simp add: EmailModule_execute_def EmailModule_init_def)
  moreover have "TraceModule_execute offline TraceModule_init =
          Done (offline, logger ERROR ''No target IP specified'' TraceModule_init)"
    by (simp add: TraceModule_execute_def TraceModule_init_def)
  moreover have "UsernameModule_execute offline no_platforms =
          Done (offline, logger INFO ''Username reconnaissance completed. Found 0 matches''
                  (logger WARNING ''No results to save''
                     (logger INFO ''Starting username reconnaissance on: bob'' no_platforms)))"
    by (simp add: UsernameModule_execute_def default_folder_def await_and_save_def
        pool_drains_def UsernameModule_save_results_def no_platforms_def UsernameModule_init_def
        show_nat.simps digit_def logger_def)
  ultimately show ?thesis by simp
qed

section \<open>Notification\<close>

text \<open>
  C6, as the code has it. An exception raised by the desktop notifier leaves \<open>notify\<close>
  as it came: the caller of \<open>notify\<close> gets it, and the line "Notification sent" is not
  logged. The session is handed back untouched (target, folder, results and log as
  \<open>execute\<close> left them) and \<open>notify\<close> has no access to the disk, so the completed run and
  its artifact stay as they are. When the notifier works, the session gains one log
  line and nothing else.
\<close>

theorem notify_failure_propagates:
  assumes "notify_fault w ''Email Module Complete'' ''Done! Found Info About Suspect'' = Some e1"
    and "notify_fault w ''Trace Module Complete'' ''Done! IP Traced And Data Sent!'' = Some e2"
    and "notify_fault w ''Username Module Complete'' ''Done! Data Sent.'' = Some e3"
    and "notify_fault w' title message = None"
  shows "EmailModule_notify w m = Raised e1 m
    \<and> TraceModule_notify w m = Raised e2 m
    \<and> UsernameModule_notify w m = Raised e3 m
    \<and> notify title message w' m = Done (logger INFO ''Notification sent'' m)
    \<and> results (logger INFO ''Notification sent'' m) = results m"
  using assms
  by (simp add: EmailModule_notify_def TraceModule_notify_def UsernameModule_notify_def notify_def)

theorem notify_failure_propagates_witness:
  "notify_fault no_notifier ''Email Module Complete'' ''Done! Found Info About Suspect''
     = Some (Exc ''NotImplementedError'' ''No usable implementation found!'')
   \<and> notify_fault offline ''Email Module Complete'' ''Done! Found Info About Suspect'' = None
   \<and> EmailModule_notify no_notifier (holding (JInt 1)) =
       Raised (Exc ''NotImplementedError'' ''No usable implementation found!'') (holding (JInt 1))
   \<and> TraceModule_notify no_notifier (holding (JInt 1)) =
       Raised (Exc ''NotImplementedError'' ''No usable implementation found!'') (holding (JInt 1))
   \<and> UsernameModule_notify no_notifier (holding (JInt 1)) =
       Raised (Exc ''NotImplementedError'' ''No usable implementation found!'') (holding (JInt 1))
   \<and> notify ''Email Module Complete'' ''Done! Found Info About Suspect'' offline (holding (JInt 1)) =
       Done (logger INFO ''Notification sent'' (holding (JInt 1)))"
  using notify_failure_propagates [of no_notifier
      "Exc ''NotImplementedError'' ''No usable implementation found!''"
      "Exc ''NotImplementedError'' ''No usable implementation found!''"
      "Exc ''NotImplementedError'' ''No usable implementation found!''"
      offline "''Email Module Complete''" "''Done! Found Info About Suspect''" "holding (JInt 1)"]
  by (simp add: no_notifier_def offline_def)

text \<open>
  The claim as the specification words it fails: on a desktop without a notification
  backend the exception of the notifier reaches the caller of \<open>notify\<close>.
\<close>

theorem notify_not_absorbed_counterexample:
  "EmailModule_notify no_notifier (holding (JInt 1)) =
     Raised (Exc ''NotImplementedError'' ''No usable implementation found!'') (holding (JInt 1))
   \<and> (\<forall>s. EmailModule_notify no_notifier (holding (JInt 1)) \<noteq> Done s)"
  by (simp add: EmailModule_notify_def notify_def no_notifier_def offline_def)

section \<open>Persistence\<close>

text \<open>
  C7. When the results are empty, \<open>_save_results\<close> of each class writes nothing: the
  world is returned as it was, and the one line it logs is a warning, not an error.
  A run whose wait loop ends with empty results therefore returns normally, in the
  world as it was, with that warning followed by the closing line of \<open>execute\<close>.
\<close>

theorem empty_results_not_persisted:
  assumes "results m = []"
    and "pool_drains futures"
    and "results (snd (collect t pre guarded 0 s futures)) = []"
    and "save = EmailModule_save_results \<or> save = TraceModule_save_results
         \<or> save = UsernameModule_save_results"
  shows "EmailModule_save_results w m = Inr (w, logger WARNING ''No results to save'' m)
    \<and> TraceModule_save_results w m = Inr (w, logger WARNING ''No results to save'' m)
    \<and> UsernameModule_save_results w m = Inr (w, logger WARNING ''No results to save'' m)
    \<and> await_and_save t pre guarded save closing w s futures =
        Done (w, logger INFO
                   (closing (logger WARNING ''No results to save''
                               (snd (collect t pre guarded 0 s futures))))
                   (logger WARNING ''No results to save''
                      (snd (collect t pre guarded 0 s futures))))"
proof -
  let ?s1 = "snd (collect t pre guarded 0 s futures)"
  have saved: "save w ?s1 = Inr (w, logger WARNING ''No results to save'' ?s1)"
    using assms(3,4)
    by (auto simp: EmailModule_save_results_def TraceModule_save_results_def
        save_timestamped_empty UsernameModule_save_results_empty)
  have "await_and_save t pre guarded save closing w s futures =
        Done (w, logger INFO (closing (logger WARNING ''No results to save'' ?s1))
                   (logger WARNING ''No results to save'' ?s1))"
    using assms(2) saved by (simp add: await_and_save_def Let_def)
  then show ?thesis
    using assms(1)
    by (simp add: EmailModule_save_results_def TraceModule_save_results_def
        save_timestamped_empty UsernameModule_save_results_empty)
qed

theorem empty_results_not_persisted_witness:
  "results blank = [] \<and> pool_drains [probe_raising, probe_slow]
   \<and> results (snd (collect 10 ''Service error: '' False 0 blank [probe_raising, probe_slow])) = []
   \<and> EmailModule_save_results offline_out blank =
       Inr (offline_out, logger WARNING ''No results to save'' blank)
   \<and> await_and_save 10 ''Service error: '' False EmailModule_save_results
        (\<lambda>_. ''Email reconnaissance completed'') offline_out blank [probe_raising, probe_slow] =
       Done (offline_out,
             logger INFO ''Email reconnaissance completed''
               (logger WARNING ''No results to save''
                  (snd (collect 10 ''Service error: '' False 0 blank [probe_raising, probe_slow]))))"
proof -
  have a: "results blank = []"
    by (simp add: blank_def)
  have b: "pool_drains [probe_raising, probe_slow]"
    by (simp add: pool_drains_def probe_raising_def probe_slow_def)
  have c: "results (snd (collect 10 ''Service error: '' False 0 blank [probe_raising, probe_slow])) = []"
    by (simp add: future_result_def probe_raising_def probe_slow_def blank_def)
  show ?thesis
    using a b c
      empty_results_not_persisted [OF a b c, of EmailModule_save_results offline_out
        "\<lambda>_. ''Email reconnaissance completed''"]
    by simp
qed

lemma save_timestamped_failed:
  assumes "results m \<noteq> []" and "output_folder m = Some folder"
    and "write_json w folder (prefix @ strftime (now w) @ ''.json'') (results m) = (w1, Some e)"
  shows "save_timestamped prefix w m =
           Inr (w1, logger ERROR (''Failed to save results: '' @ exc_str e) m)"
  using assms by (simp add: save_timestamped_def)

lemma UsernameModule_save_results_failed:
  assumes "results m \<noteq> []" and "output_folder m = Some folder"
    and "listdir w folder = Inr names"
    and "write_json w folder (''Log'' @ show_nat (length names + 1) @ ''.json'') (results m) = (w1, Some e)"
  shows "UsernameModule_save_results w m =
           Inr (w1, logger ERROR (''Failed to save results: '' @ exc_str e) m)"
  using assms by (simp add: UsernameModule_save_results_def)

lemma UsernameModule_save_results_unlisted:
  assumes "results m \<noteq> []" and "output_folder m = Some folder"
    and "listdir w folder = Inl e"
  shows "UsernameModule_save_results w m = Inl e"
  using assms by (simp add: UsernameModule_save_results_def)

text \<open>
  C8. When the write of the artifact fails (\<open>open\<close> or \<open>json.dump\<close> raises, or the folder
  is gone), \<open>_save_results\<close> of each of the three classes returns normally: the exception
  is logged as one error line, the world is the one a single attempt leaves behind,
  and the session is otherwise the one it was given, with the same results. In
  \<open>UsernameModule\<close> the file name needs \<open>os.listdir\<close> first, which stands before the \<open>try\<close>:
  when the listing fails nothing is attempted and its exception leaves \<open>_save_results\<close>.
\<close>

theorem failed_write_keeps_results:
  assumes "results m \<noteq> []" and "output_folder m = Some folder"
  shows "(write_json w folder (''EmailLog_'' @ strftime (now w) @ ''.json'') (results m) = (w1, Some e1)
            \<longrightarrow> EmailModule_save_results w m =
                  Inr (w1, logger ERROR (''Failed to save results: '' @ exc_str e1) m))
    \<and> (write_json w folder (''TraceLog_'' @ strftime (now w) @ ''.json'') (results m) = (w2, Some e2)
            \<longrightarrow> TraceModule_save_results w m =
                  Inr (w2, logger ERROR (''Failed to save results: '' @ exc_str e2) m))
    \<and> (listdir w folder = Inr names \<longrightarrow>
        write_json w folder (''Log'' @ show_nat (length names + 1) @ ''.json'') (results m) = (w3, Some e3)
            \<longrightarrow> UsernameModule_save_results w m =
                  Inr (w3, logger ERROR (''Failed to save results: '' @ exc_str e3) m))
    \<and> (listdir w folder = Inl e4 \<longrightarrow> UsernameModule_save_results w m = Inl e4)
    \<and> results (logger ERROR (''Failed to save results: '' @ exc_str e1) m) = results m
    \<and> results (logger ERROR (''Failed to save results: '' @ exc_str e2) m) = results m
    \<and> results (logger ERROR (''Failed to save results: '' @ exc_str e3) m) = results m"
  using save_timestamped_failed [OF assms, of w "''EmailLog_''" w1 e1]
    save_timestamped_failed [OF assms, of w "''TraceLog_''" w2 e2]
    UsernameModule_save_results_failed [OF assms, of w names w3 e3]
    UsernameModule_save_results_unlisted [OF assms, of w e4]
  by (simp add: EmailModule_save_results_def TraceModule_save_results_def)

theorem failed_write_keeps_results_witness:
  "results (holding (JInt 1)) \<noteq> [] \<and> output_folder (holding (JInt 1)) = Some ''out''
   \<and> listdir read_only_out ''out'' = Inr []
   \<and> EmailModule_save_results read_only_out (holding (JInt 1)) =
       Inr (read_only_out,
            logger ERROR ''Failed to save results: [Errno 13] Permission denied'' (holding (JInt 1)))
   \<and> TraceModule_save_results read_only_out (holding (JInt 1)) =
       Inr (read_only_out,
            logger ERROR ''Failed to save results: [Errno 13] Permission denied'' (holding (JInt 1)))
   \<and> UsernameModule_save_results read_only_out (holding (JInt 1)) =
       Inr (read_only_out,
            logger ERROR ''Failed to save results: [Errno 13] Permission denied'' (holding (JInt 1)))
   \<and> results (logger ERROR ''Failed to save results: [Errno 13] Permission denied'' (holding (JInt 1)))
       = [(''x'', JInt 1)]
   \<and> listdir unlistable ''out'' = Inl (Exc ''PermissionError'' ''[Errno 13] Permission denied'')
   \<and> UsernameModule_save_results unlistable (holding (JInt 1)) =
       Inl (Exc ''PermissionError'' ''[Errno 13] Permission denied'')"
proof -
  let ?e = "Exc ''PermissionError'' ''[Errno 13] Permission denied''"
  have a: "results (holding (JInt 1)) \<noteq> []"
    by (simp add: holding_def blank_def)
  have b: "output_folder (holding (JInt 1)) = Some ''out''"
    by (simp add: holding_def blank_def)
  have c: "write_json read_only_out ''out'' name (results (holding (JInt 1))) =
             (read_only_out, Some ?e)" for name
    by (simp add: write_json_def read_only_out_def offline_out_def)
  have d: "listdir read_only_out ''out'' = Inr []"
    by (simp add: listdir_def read_only_out_def offline_out_def offline_def)
  have l: "listdir unlistable ''out'' = Inl ?e"
    by (simp add: listdir_def unlistable_def)
  note W = failed_write_keeps_results [OF a b, where w = read_only_out
      and ?w1.0 = read_only_out and ?e1.0 = ?e and ?w2.0 = read_only_out and ?e2.0 = ?e
      and names = "[]" and ?w3.0 = read_only_out and ?e3.0 = ?e]
  note L = failed_write_keeps_results [OF a b, where w = unlistable and ?e4.0 = ?e]
  have one: "EmailModule_save_results read_only_out (holding (JInt 1)) =
       Inr (read_only_out,
            logger ERROR ''Failed to save results: [Errno 13] Permission denied'' (holding (JInt 1)))"
    using W c by simp
  have two: "TraceModule_save_results read_only_out (holding (JInt 1)) =
       Inr (read_only_out,
            logger ERROR ''Failed to save results: [Errno 13] Permission denied'' (holding (JInt 1)))"
    using W c by simp
  have three: "UsernameModule_save_results read_only_out (holding (JInt 1)) =
       Inr (read_only_out,
            logger ERROR ''Failed to save results: [Errno 13] Permission denied'' (holding (JInt 1)))"
    using W c d by simp
  have four: "results (logger ERROR ''Failed to save results: [Errno 13] Permission denied''
                         (holding (JInt 1))) = [(''x'', JInt 1)]"
    using W by (simp add: holding_def blank_def)
  have five: "UsernameModule_save_results unlistable (holding (JInt 1)) = Inl ?e"
    using L l by blast
  from a b d one two three four l five show ?thesis
    by (intro conjI)
qed

section \<open>The wait loop\<close>










section \<open>Order of the merges\<close>





section \<open>Errors of the probes\<close>









section \<open>Probes that do not succeed\<close>









text \<open>Runs on the machine without network, evaluated.\<close>

lemma validate_ab_co: "EmailModule_validate_email ''a@b.co''"
  by code_simp










lemma map_of_dict_update_single:
  "map_of (dict_update d [(k, v)]) = (map_of d)(k \<mapsto> v)"
  by (simp add: update_conv')

lemma request_fails_disk [simp]: "request_fails (w\<lparr>disk := d\<rparr>) url = request_fails w url"
  by (simp add: request_fails_def)

lemma service_fails_disk [simp]:
  "service_fails (w\<lparr>disk := d\<rparr>) svc name suffix = service_fails w svc name suffix"
  by (simp add: service_fails_def split: option.splits)

lemma port_closed_disk [simp]: "port_closed (w\<lparr>disk := d\<rparr>) ip = port_closed w ip"
  by (simp add: port_closed_def fun_eq_iff)










section \<open>Names of the artifacts\<close>

text \<open>The timestamp of a file name determines the reading of the clock down to the second.\<close>

lemma length_zpad [simp]: "length (zpad k n) = k"
  by (induction k arbitrary: n) auto

lemma digit_inj: "digit n = digit m \<Longrightarrow> n mod 10 = m mod 10"
proof -
  assume eq: "digit n = digit m"
  have d: "distinct ''0123456789''" by simp
  have "n mod 10 < length ''0123456789''" "m mod 10 < length ''0123456789''"
    by simp_all
  with d eq show ?thesis
    unfolding digit_def by (simp only: nth_eq_iff_index_eq)
qed

lemma zpad_inj: "zpad k n = zpad k m \<Longrightarrow> n mod 10 ^ k = m mod 10 ^ k"
proof (induction k arbitrary: n m)
  case 0
  then show ?case by simp
next
  case (Suc k)
  from Suc.prems have a: "zpad k (n div 10) = zpad k (m div 10)" and b: "digit n = digit m"
    by simp_all
  have "n div 10 mod 10 ^ k = m div 10 mod 10 ^ k"
    using Suc.IH [OF a] .
  moreover have "n mod 10 = m mod 10"
    using digit_inj [OF b] .
  ultimately show ?case
    by (simp add: mod_mult2_eq)
qed

lemma zpad_inj_small: "zpad k n = zpad k m \<Longrightarrow> n < 10 ^ k \<Longrightarrow> m < 10 ^ k \<Longrightarrow> n = m"
  using zpad_inj [of k n m] by simp

lemma strftime_inj:
  assumes "valid_datetime d" and "valid_datetime d'" and "strftime d = strftime d'"
  shows "to_the_second d = to_the_second d'"
proof -
  from assms(3) have
    y: "zpad 4 (year d) = zpad 4 (year d')" and mo: "zpad 2 (month d) = zpad 2 (month d')" and
    da: "zpad 2 (day d) = zpad 2 (day d')" and h: "zpad 2 (hour d) = zpad 2 (hour d')" and
    mi: "zpad 2 (minute d) = zpad 2 (minute d')" and se: "zpad 2 (second d) = zpad 2 (second d')"
    unfolding strftime_def by (simp_all del: zpad.simps)
  have b: "year d < 10 ^ 4" "year d' < 10 ^ 4" "month d < 10 ^ 2" "month d' < 10 ^ 2"
    "day d < 10 ^ 2" "day d' < 10 ^ 2" "hour d < 10 ^ 2" "hour d' < 10 ^ 2"
    "minute d < 10 ^ 2" "minute d' < 10 ^ 2" "second d < 10 ^ 2" "second d' < 10 ^ 2"
    using assms(1,2) unfolding valid_datetime_def by simp_all
  have "year d = year d'" by (rule zpad_inj_small [OF y b(1,2)])
  moreover have "month d = month d'" by (rule zpad_inj_small [OF mo b(3,4)])
  moreover have "day d = day d'" by (rule zpad_inj_small [OF da b(5,6)])
  moreover have "hour d = hour d'" by (rule zpad_inj_small [OF h b(7,8)])
  moreover have "minute d = minute d'" by (rule zpad_inj_small [OF mi b(9,10)])
  moreover have "second d = second d'" by (rule zpad_inj_small [OF se b(11,12)])
  ultimately show ?thesis
    unfolding to_the_second_def by simp
qed

text \<open>A write touches one name of one folder.\<close>

lemma map_of_update_other: "n \<noteq> name \<Longrightarrow> map_of (AList.update name v es) n = map_of es n"
  by (simp add: update_conv')

lemma write_json_frame:
  assumes "write_json w folder name d = (w', r)" and "disk w folder = Some es"
  shows "\<exists>es'. disk w' folder = Some es' \<and> (\<forall>n. n \<noteq> name \<longrightarrow> map_of es' n = map_of es n)"
proof (cases "write_fault w folder name")
  case None
  then have "disk w' folder = Some (AList.update name (Dump d) es)"
    using assms by (auto simp: write_json_def)
  then show ?thesis
    by (simp add: map_of_update_other)
next
  case (Some flt)
  show ?thesis
  proof (cases flt)
    case (OpenFails e)
    then have "w' = w"
      using assms Some by (simp add: write_json_def)
    then show ?thesis using assms(2) by simp
  next
    case (DumpFails e)
    then have "disk w' folder = Some (AList.update name Truncated es)"
      using assms Some by (auto simp: write_json_def)
    then show ?thesis
      by (simp add: map_of_update_other)
  qed
qed

lemma save_timestamped_frame:
  assumes "save_timestamped prefix w m = Inr (w', m')"
    and "output_folder m = Some folder" and "disk w folder = Some es"
  shows "\<exists>es'. disk w' folder = Some es' \<and>
           (\<forall>n. n \<noteq> prefix @ strftime (now w) @ ''.json'' \<longrightarrow> map_of es' n = map_of es n)"
proof (cases "results m = []")
  case True
  then have "w' = w" using assms(1) by (simp add: save_timestamped_def)
  then show ?thesis using assms(3) by simp
next
  case False
  obtain w2 r where wj:
    "write_json w folder (prefix @ strftime (now w) @ ''.json'') (results m) = (w2, r)"
    by (cases "write_json w folder (prefix @ strftime (now w) @ ''.json'') (results m)")
  then have "w' = w2"
    using assms(1,2) False by (cases r) (simp_all add: save_timestamped_def)
  then show ?thesis
    using write_json_frame [OF wj assms(3)] by simp
qed

lemma UsernameModule_save_results_disk:
  assumes "UsernameModule_save_results w m = Inr (w', m')"
    and "output_folder m = Some folder" and "disk w folder = Some es"
  shows "\<exists>es'. disk w' folder = Some es' \<and>
           (\<forall>n. n \<noteq> ''Log'' @ show_nat (length es + 1) @ ''.json'' \<longrightarrow> map_of es' n = map_of es n)"
proof (cases "results m = []")
  case True
  then have "w' = w" using assms(1) by (simp add: UsernameModule_save_results_def)
  then show ?thesis using assms(3) by simp
next
  case False
  have ls: "listdir w folder = Inr (map fst es)"
  proof (cases "listdir_fault w folder")
    case None
    then show ?thesis using assms(3) by (simp add: listdir_def)
  next
    case (Some e)
    then have "listdir w folder = Inl e" by (simp add: listdir_def)
    then show ?thesis
      using assms(1,2) False by (simp add: UsernameModule_save_results_def)
  qed
  obtain w2 r where wj:
    "write_json w folder (''Log'' @ show_nat (length es + 1) @ ''.json'') (results m) = (w2, r)"
    by (cases "write_json w folder (''Log'' @ show_nat (length es + 1) @ ''.json'') (results m)")
  then have "w' = w2"
    using assms(1,2) False ls by (cases r) (simp_all add: UsernameModule_save_results_def)
  then show ?thesis
    using write_json_frame [OF wj assms(3)] by simp
qed

lemma stamp_differs:
  assumes "valid_datetime d" and "valid_datetime d'" and "to_the_second d \<noteq> to_the_second d'"
  shows "prefix @ strftime d @ ''.json'' \<noteq> prefix @ strftime d' @ ''.json''"
proof
  assume "prefix @ strftime d @ ''.json'' = prefix @ strftime d' @ ''.json''"
  then have "strftime d = strftime d'" by simp
  then show False
    using strftime_inj [OF assms(1,2)] assms(3) by blast
qed

text \<open>File names evaluated.\<close>

lemma zpad_numeral: "zpad (numeral k) n = zpad (pred_numeral k) (n div 10) @ [digit n]"
  by (subst numeral_eq_Suc) simp

lemma stamp_now: "strftime (now offline) = ''20240517_093012''"
  by (simp add: strftime_def offline_def digit_def zpad_numeral)

lemma stamp_later: "strftime ((now offline)\<lparr>microsecond := 750000\<rparr>) = ''20240517_093012''"
  by (simp add: strftime_def offline_def digit_def zpad_numeral)

lemma stamp_before: "strftime one_second_before = ''20240517_093011''"
  by (simp add: strftime_def one_second_before_def digit_def zpad_numeral)

lemma show_nat_2: "show_nat (Suc (Suc 0)) = ''2''"
  by (simp add: show_nat.simps digit_def)

lemma now_offline_out: "now offline_out = now offline"
  by (simp add: offline_out_def)

lemma write_json_ok:
  assumes "disk w folder = Some es" and "write_fault w folder name = None"
  shows "write_json w folder name d =
           (w\<lparr>disk := (disk w)(folder := Some (AList.update name (Dump d) es))\<rparr>, None)"
  using assms by (simp add: write_json_def)

lemma file_at_written:
  "file_at (w\<lparr>disk := (disk w)(folder := Some (AList.update name c es))\<rparr>) folder name = Some c"
  by (simp add: file_at_def update_conv')

lemma save_timestamped_writes:
  assumes "output_folder m = Some folder" and "disk w folder = Some es"
    and "results m \<noteq> []" and "write_fault w folder (prefix @ strftime (now w) @ ''.json'') = None"
  shows "save_timestamped prefix w m =
           Inr (w\<lparr>disk := (disk w)(folder :=
                      Some (AList.update (prefix @ strftime (now w) @ ''.json'') (Dump (results m)) es))\<rparr>,
                logger INFO (''Results saved to '' @
                             path_join folder (prefix @ strftime (now w) @ ''.json'')) m)"
  using assms write_json_ok [OF assms(2,4)] by (simp add: save_timestamped_def Let_def)

lemma UsernameModule_save_results_writes:
  assumes "output_folder m = Some folder" and "disk w folder = Some es"
    and "results m \<noteq> []" and "listdir_fault w folder = None"
    and "write_fault w folder (''Log'' @ show_nat (length es + 1) @ ''.json'') = None"
  shows "UsernameModule_save_results w m =
           Inr (w\<lparr>disk := (disk w)(folder :=
                      Some (AList.update (''Log'' @ show_nat (length es + 1) @ ''.json'')
                              (Dump (results m)) es))\<rparr>,
                logger INFO (''Results saved to '' @
                             path_join folder (''Log'' @ show_nat (length es + 1) @ ''.json'')) m)"
  using assms write_json_ok [OF assms(2,5)]
  by (simp add: UsernameModule_save_results_def listdir_def Let_def)

lemma save_timestamped_keeps:
  assumes "save_timestamped prefix w m = Inr (w', m')"
    and "output_folder m = Some folder" and "disk w folder = Some es"
    and "n \<noteq> prefix @ strftime (now w) @ ''.json''"
  shows "file_at w' folder n = file_at w folder n"
  using save_timestamped_frame [OF assms(1-3)] assms(3,4) by (auto simp: file_at_def)

lemma UsernameModule_save_results_keeps:
  assumes "UsernameModule_save_results w m = Inr (w', m')"
    and "output_folder m = Some folder" and "disk w folder = Some es"
    and "n \<noteq> ''Log'' @ show_nat (length es + 1) @ ''.json''"
  shows "file_at w' folder n = file_at w folder n"
  using UsernameModule_save_results_disk [OF assms(1-3)] assms(3,4) by (auto simp: file_at_def)

text \<open>
  C9, as the code has it. \<open>EmailModule\<close> and \<open>TraceModule\<close> name the artifact \<open>EmailLog_\<close> or
  \<open>TraceLog_\<close>, the local time as \<open>YYYYmmdd_HHMMSS\<close>, \<open>.json\<close>; \<open>UsernameModule\<close> names it \<open>Log\<close>,
  the number of entries of the folder plus one, \<open>.json\<close>, with no kind in the name. A
  save of non-empty results into an existing folder, when the write does not fail,
  puts the dump of the results under exactly that name (replacing what was there)
  and logs where. A save touches no other name: an email or trace artifact written
  at a reading of the clock that differs down to the second stays as it is, so do
  the artifacts of the other kinds, and a username save leaves every entry of the
  folder other than the name it generates as it is.
\<close>

theorem artifacts_kept_apart:
  assumes "output_folder m = Some folder" and "disk w folder = Some es"
  shows
   "(results m \<noteq> [] \<longrightarrow> write_fault w folder (''EmailLog_'' @ strftime (now w) @ ''.json'') = None \<longrightarrow>
       EmailModule_save_results w m =
         Inr (w\<lparr>disk := (disk w)(folder :=
                    Some (AList.update (''EmailLog_'' @ strftime (now w) @ ''.json'')
                            (Dump (results m)) es))\<rparr>,
              logger INFO (''Results saved to '' @
                           path_join folder (''EmailLog_'' @ strftime (now w) @ ''.json'')) m)
       \<and> file_at (w\<lparr>disk := (disk w)(folder :=
                    Some (AList.update (''EmailLog_'' @ strftime (now w) @ ''.json'')
                            (Dump (results m)) es))\<rparr>)
             folder (''EmailLog_'' @ strftime (now w) @ ''.json'') = Some (Dump (results m)))
  \<and> (results m \<noteq> [] \<longrightarrow> write_fault w folder (''TraceLog_'' @ strftime (now w) @ ''.json'') = None \<longrightarrow>
       TraceModule_save_results w m =
         Inr (w\<lparr>disk := (disk w)(folder :=
                    Some (AList.update (''TraceLog_'' @ strftime (now w) @ ''.json'')
                            (Dump (results m)) es))\<rparr>,
              logger INFO (''Results saved to '' @
                           path_join folder (''TraceLog_'' @ strftime (now w) @ ''.json'')) m)
       \<and> file_at (w\<lparr>disk := (disk w)(folder :=
                    Some (AList.update (''TraceLog_'' @ strftime (now w) @ ''.json'')
                            (Dump (results m)) es))\<rparr>)
             folder (''TraceLog_'' @ strftime (now w) @ ''.json'') = Some (Dump (results m)))
  \<and> (results m \<noteq> [] \<longrightarrow> listdir_fault w folder = None \<longrightarrow>
      write_fault w folder (''Log'' @ show_nat (length es + 1) @ ''.json'') = None \<longrightarrow>
       UsernameModule_save_results w m =
         Inr (w\<lparr>disk := (disk w)(folder :=
                    Some (AList.update (''Log'' @ show_nat (length es + 1) @ ''.json'')
                            (Dump (results m)) es))\<rparr>,
              logger INFO (''Results saved to '' @
                           path_join folder (''Log'' @ show_nat (length es + 1) @ ''.json'')) m)
       \<and> file_at (w\<lparr>disk := (disk w)(folder :=
                    Some (AList.update (''Log'' @ show_nat (length es + 1) @ ''.json'')
                            (Dump (results m)) es))\<rparr>)
             folder (''Log'' @ show_nat (length es + 1) @ ''.json'') = Some (Dump (results m)))
  \<and> (EmailModule_save_results w m = Inr (w1, m1) \<longrightarrow>
       (valid_datetime (now w) \<longrightarrow> valid_datetime earlier \<longrightarrow>
        to_the_second earlier \<noteq> to_the_second (now w) \<longrightarrow>
          file_at w1 folder (''EmailLog_'' @ strftime earlier @ ''.json'') =
          file_at w folder (''EmailLog_'' @ strftime earlier @ ''.json''))
       \<and> file_at w1 folder (''TraceLog_'' @ stamp @ ''.json'') =
           file_at w folder (''TraceLog_'' @ stamp @ ''.json'')
       \<and> file_at w1 folder (''Log'' @ count @ ''.json'') =
           file_at w folder (''Log'' @ count @ ''.json''))
  \<and> (TraceModule_save_results w m = Inr (w2, m2) \<longrightarrow>
       (valid_datetime (now w) \<longrightarrow> valid_datetime earlier \<longrightarrow>
        to_the_second earlier \<noteq> to_the_second (now w) \<longrightarrow>
          file_at w2 folder (''TraceLog_'' @ strftime earlier @ ''.json'') =
          file_at w folder (''TraceLog_'' @ strftime earlier @ ''.json''))
       \<and> file_at w2 folder (''EmailLog_'' @ stamp @ ''.json'') =
           file_at w folder (''EmailLog_'' @ stamp @ ''.json'')
       \<and> file_at w2 folder (''Log'' @ count @ ''.json'') =
           file_at w folder (''Log'' @ count @ ''.json''))
  \<and> (UsernameModule_save_results w m = Inr (w3, m3) \<longrightarrow>
       n \<noteq> ''Log'' @ show_nat (length es + 1) @ ''.json'' \<longrightarrow>
       file_at w3 folder n = file_at w folder n)"
proof -
  have ew: "results m \<noteq> [] \<longrightarrow> write_fault w folder (''EmailLog_'' @ strftime (now w) @ ''.json'') = None \<longrightarrow>
       EmailModule_save_results w m =
         Inr (w\<lparr>disk := (disk w)(folder :=
                    Some (AList.update (''EmailLog_'' @ strftime (now w) @ ''.json'')
                            (Dump (results m)) es))\<rparr>,
              logger INFO (''Results saved to '' @
                           path_join folder (''EmailLog_'' @ strftime (now w) @ ''.json'')) m)
       \<and> file_at (w\<lparr>disk := (disk w)(folder :=
                    Some (AList.update (''EmailLog_'' @ strftime (now w) @ ''.json'')
                            (Dump (results m)) es))\<rparr>)
             folder (''EmailLog_'' @ strftime (now w) @ ''.json'') = Some (Dump (results m))"
    unfolding EmailModule_save_results_def
    using save_timestamped_writes [OF assms, of "''EmailLog_''"] file_at_written by blast
  have tw: "results m \<noteq> [] \<longrightarrow> write_fault w folder (''TraceLog_'' @ strftime (now w) @ ''.json'') = None \<longrightarrow>
       TraceModule_save_results w m =
         Inr (w\<lparr>disk := (disk w)(folder :=
                    Some (AList.update (''TraceLog_'' @ strftime (now w) @ ''.json'')
                            (Dump (results m)) es))\<rparr>,
              logger INFO (''Results saved to '' @
                           path_join folder (''TraceLog_'' @ strftime (now w) @ ''.json'')) m)
       \<and> file_at (w\<lparr>disk := (disk w)(folder :=
                    Some (AList.update (''TraceLog_'' @ strftime (now w) @ ''.json'')
                            (Dump (results m)) es))\<rparr>)
             folder (''TraceLog_'' @ strftime (now w) @ ''.json'') = Some (Dump (results m))"
    unfolding TraceModule_save_results_def
    using save_timestamped_writes [OF assms, of "''TraceLog_''"] file_at_written by blast
  have uw: "results m \<noteq> [] \<longrightarrow> listdir_fault w folder = None \<longrightarrow>
      write_fault w folder (''Log'' @ show_nat (length es + 1) @ ''.json'') = None \<longrightarrow>
       UsernameModule_save_results w m =
         Inr (w\<lparr>disk := (disk w)(folder :=
                    Some (AList.update (''Log'' @ show_nat (length es + 1) @ ''.json'')
                            (Dump (results m)) es))\<rparr>,
              logger INFO (''Results saved to '' @
                           path_join folder (''Log'' @ show_nat (length es + 1) @ ''.json'')) m)
       \<and> file_at (w\<lparr>disk := (disk w)(folder :=
                    Some (AList.update (''Log'' @ show_nat (length es + 1) @ ''.json'')
                            (Dump (results m)) es))\<rparr>)
             folder (''Log'' @ show_nat (length es + 1) @ ''.json'') = Some (Dump (results m))"
    using UsernameModule_save_results_writes [OF assms] file_at_written by blast
  have e1: "''TraceLog_'' @ stamp @ ''.json'' \<noteq> ''EmailLog_'' @ strftime (now w) @ ''.json''"
    and e2: "''Log'' @ count @ ''.json'' \<noteq> ''EmailLog_'' @ strftime (now w) @ ''.json''"
    and t1: "''EmailLog_'' @ stamp @ ''.json'' \<noteq> ''TraceLog_'' @ strftime (now w) @ ''.json''"
    and t2: "''Log'' @ count @ ''.json'' \<noteq> ''TraceLog_'' @ strftime (now w) @ ''.json''"
    by simp_all
  have ef: "EmailModule_save_results w m = Inr (w1, m1) \<longrightarrow>
       (valid_datetime (now w) \<longrightarrow> valid_datetime earlier \<longrightarrow>
        to_the_second earlier \<noteq> to_the_second (now w) \<longrightarrow>
          file_at w1 folder (''EmailLog_'' @ strftime earlier @ ''.json'') =
          file_at w folder (''EmailLog_'' @ strftime earlier @ ''.json''))
       \<and> file_at w1 folder (''TraceLog_'' @ stamp @ ''.json'') =
           file_at w folder (''TraceLog_'' @ stamp @ ''.json'')
       \<and> file_at w1 folder (''Log'' @ count @ ''.json'') =
           file_at w folder (''Log'' @ count @ ''.json'')"
  proof
    assume s: "EmailModule_save_results w m = Inr (w1, m1)"
    note k = save_timestamped_keeps [OF s [unfolded EmailModule_save_results_def] assms]
    show "(valid_datetime (now w) \<longrightarrow> valid_datetime earlier \<longrightarrow>
        to_the_second earlier \<noteq> to_the_second (now w) \<longrightarrow>
          file_at w1 folder (''EmailLog_'' @ strftime earlier @ ''.json'') =
          file_at w folder (''EmailLog_'' @ strftime earlier @ ''.json''))
       \<and> file_at w1 folder (''TraceLog_'' @ stamp @ ''.json'') =
           file_at w folder (''TraceLog_'' @ stamp @ ''.json'')
       \<and> file_at w1 folder (''Log'' @ count @ ''.json'') =
           file_at w folder (''Log'' @ count @ ''.json'')"
      using k [OF e1] k [OF e2] k [OF stamp_differs [of earlier "now w" "''EmailLog_''"]]
      by blast
  qed
  have tf: "TraceModule_save_results w m = Inr (w2, m2) \<longrightarrow>
       (valid_datetime (now w) \<longrightarrow> valid_datetime earlier \<longrightarrow>
        to_the_second earlier \<noteq> to_the_second (now w) \<longrightarrow>
          file_at w2 folder (''TraceLog_'' @ strftime earlier @ ''.json'') =
          file_at w folder (''TraceLog_'' @ strftime earlier @ ''.json''))
       \<and> file_at w2 folder (''EmailLog_'' @ stamp @ ''.json'') =
           file_at w folder (''EmailLog_'' @ stamp @ ''.json'')
       \<and> file_at w2 folder (''Log'' @ count @ ''.json'') =
           file_at w folder (''Log'' @ count @ ''.json'')"
  proof
    assume s: "TraceModule_save_results w m = Inr (w2, m2)"
    note k = save_timestamped_keeps [OF s [unfolded TraceModule_save_results_def] assms]
    show "(valid_datetime (now w) \<longrightarrow> valid_datetime earlier \<longrightarrow>
        to_the_second earlier \<noteq> to_the_second (now w) \<longrightarrow>
          file_at w2 folder (''TraceLog_'' @ strftime earlier @ ''.json'') =
          file_at w folder (''TraceLog_'' @ strftime earlier @ ''.json''))
       \<and> file_at w2 folder (''EmailLog_'' @ stamp @ ''.json'') =
           file_at w folder (''EmailLog_'' @ stamp @ ''.json'')
       \<and> file_at w2 folder (''Log'' @ count @ ''.json'') =
           file_at w folder (''Log'' @ count @ ''.json'')"
      using k [OF t1] k [OF t2] k [OF stamp_differs [of earlier "now w" "''TraceLog_''"]]
      by blast
  qed
  have uf: "UsernameModule_save_results w m = Inr (w3, m3) \<longrightarrow>
       n \<noteq> ''Log'' @ show_nat (length es + 1) @ ''.json'' \<longrightarrow>
       file_at w3 folder n = file_at w folder n"
    using UsernameModule_save_results_keeps [OF _ assms] by blast
  from ew tw uw ef tf uf show ?thesis
    by (intro conjI)
qed

theorem artifacts_kept_apart_witness:
  "valid_datetime (now second_run) \<and> valid_datetime one_second_before
   \<and> to_the_second one_second_before \<noteq> to_the_second (now second_run)
   \<and> (\<exists>w1 m1. EmailModule_save_results second_run (holding (JInt 2)) = Inr (w1, m1)
         \<and> file_at w1 ''out'' ''EmailLog_20240517_093012.json'' = Some (Dump [(''x'', JInt 2)])
         \<and> file_at w1 ''out'' ''EmailLog_20240517_093011.json'' = Some (Dump [(''x'', JInt 1)]))
   \<and> (\<exists>w2 m2. TraceModule_save_results second_run (holding (JInt 2)) = Inr (w2, m2)
         \<and> file_at w2 ''out'' ''TraceLog_20240517_093012.json'' = Some (Dump [(''x'', JInt 2)])
         \<and> file_at w2 ''out'' ''EmailLog_20240517_093011.json'' = Some (Dump [(''x'', JInt 1)]))
   \<and> (\<exists>w3 m3. UsernameModule_save_results second_run (holding (JInt 2)) = Inr (w3, m3)
         \<and> file_at w3 ''out'' ''Log2.json'' = Some (Dump [(''x'', JInt 2)])
         \<and> file_at w3 ''out'' ''EmailLog_20240517_093011.json'' = Some (Dump [(''x'', JInt 1)]))"
proof -
  let ?es = "[(''EmailLog_20240517_093011.json'', Dump [(''x'', JInt 1)])]"
  let ?m = "holding (JInt 2)"
  let ?W1 = "second_run\<lparr>disk := (disk second_run)(''out'' :=
               Some (AList.update (''EmailLog_'' @ strftime (now second_run) @ ''.json'')
                       (Dump (results ?m)) ?es))\<rparr>"
  let ?W2 = "second_run\<lparr>disk := (disk second_run)(''out'' :=
               Some (AList.update (''TraceLog_'' @ strftime (now second_run) @ ''.json'')
                       (Dump (results ?m)) ?es))\<rparr>"
  let ?W3 = "second_run\<lparr>disk := (disk second_run)(''out'' :=
               Some (AList.update (''Log'' @ show_nat (length ?es + 1) @ ''.json'')
                       (Dump (results ?m)) ?es))\<rparr>"
  have f: "output_folder ?m = Some ''out''"
    by (simp add: holding_def blank_def)
  have d: "disk second_run ''out'' = Some ?es"
    by (simp add: second_run_def)
  have r: "results ?m \<noteq> []" and rs: "results ?m = [(''x'', JInt 2)]"
    by (simp_all add: holding_def blank_def)
  have nofault: "write_fault second_run ''out'' name = None" "listdir_fault second_run ''out'' = None"
    for name
    by (simp_all add: second_run_def offline_def)
  have v1: "valid_datetime (now second_run)"
    by (simp add: valid_datetime_def second_run_def offline_def)
  have v2: "valid_datetime one_second_before"
    by (simp add: valid_datetime_def one_second_before_def)
  have ne: "to_the_second one_second_before \<noteq> to_the_second (now second_run)"
    by (simp add: to_the_second_def one_second_before_def second_run_def offline_def)
  have st: "strftime (now second_run) = ''20240517_093012''"
    using stamp_now by (simp add: second_run_def)
  have old: "file_at second_run ''out'' ''EmailLog_20240517_093011.json'' = Some (Dump [(''x'', JInt 1)])"
    by (simp add: file_at_def second_run_def)
  have other: "''EmailLog_20240517_093011.json'' \<noteq> ''Log'' @ show_nat (length ?es + 1) @ ''.json''"
    by simp
  note T = artifacts_kept_apart [OF f d, where earlier = one_second_before
      and n = "''EmailLog_20240517_093011.json''" and ?w1.0 = ?W1 and ?w3.0 = ?W3
      and ?w2.0 = ?W2 and stamp = "''20240517_093011''"]
  have e: "EmailModule_save_results second_run ?m =
             Inr (?W1, logger INFO (''Results saved to '' @
                    path_join ''out'' (''EmailLog_'' @ strftime (now second_run) @ ''.json'')) ?m)"
    and ef: "file_at ?W1 ''out'' (''EmailLog_'' @ strftime (now second_run) @ ''.json'') =
               Some (Dump (results ?m))"
    using T r nofault by blast+
  have ek: "file_at ?W1 ''out'' (''EmailLog_'' @ strftime one_second_before @ ''.json'') =
              file_at second_run ''out'' (''EmailLog_'' @ strftime one_second_before @ ''.json'')"
    using T e v1 v2 ne by blast
  have t: "TraceModule_save_results second_run ?m =
             Inr (?W2, logger INFO (''Results saved to '' @
                    path_join ''out'' (''TraceLog_'' @ strftime (now second_run) @ ''.json'')) ?m)"
    and tf: "file_at ?W2 ''out'' (''TraceLog_'' @ strftime (now second_run) @ ''.json'') =
               Some (Dump (results ?m))"
    using T r nofault by blast+
  have tk: "file_at ?W2 ''out'' (''EmailLog_'' @ ''20240517_093011'' @ ''.json'') =
              file_at second_run ''out'' (''EmailLog_'' @ ''20240517_093011'' @ ''.json'')"
    using T t by blast
  have u: "UsernameModule_save_results second_run ?m =
             Inr (?W3, logger INFO (''Results saved to '' @
                    path_join ''out'' (''Log'' @ show_nat (length ?es + 1) @ ''.json'')) ?m)"
    and uf: "file_at ?W3 ''out'' (''Log'' @ show_nat (length ?es + 1) @ ''.json'') =
               Some (Dump (results ?m))"
    using T r nofault by blast+
  have uk: "file_at ?W3 ''out'' ''EmailLog_20240517_093011.json'' =
              file_at second_run ''out'' ''EmailLog_20240517_093011.json''"
    using T u other by blast
  have one: "\<exists>w1 m1. EmailModule_save_results second_run ?m = Inr (w1, m1)
         \<and> file_at w1 ''out'' ''EmailLog_20240517_093012.json'' = Some (Dump [(''x'', JInt 2)])
         \<and> file_at w1 ''out'' ''EmailLog_20240517_093011.json'' = Some (Dump [(''x'', JInt 1)])"
    using e ef ek old rs st stamp_before by (intro exI [of _ ?W1] exI) simp
  have two: "\<exists>w2 m2. TraceModule_save_results second_run ?m = Inr (w2, m2)
         \<and> file_at w2 ''out'' ''TraceLog_20240517_093012.json'' = Some (Dump [(''x'', JInt 2)])
         \<and> file_at w2 ''out'' ''EmailLog_20240517_093011.json'' = Some (Dump [(''x'', JInt 1)])"
    using t tf tk old rs st by (intro exI [of _ ?W2] exI) simp
  have three: "\<exists>w3 m3. UsernameModule_save_results second_run ?m = Inr (w3, m3)
         \<and> file_at w3 ''out'' ''Log2.json'' = Some (Dump [(''x'', JInt 2)])
         \<and> file_at w3 ''out'' ''EmailLog_20240517_093011.json'' = Some (Dump [(''x'', JInt 1)])"
    using u uf uk old rs show_nat_2 by (intro exI [of _ ?W3] exI) simp
  from v1 v2 ne one two three show ?thesis
    by (intro conjI)
qed

text \<open>
  The claim as the specification words it fails: two email runs that save into the same
  folder within one second generate one name, and the second save replaces the
  artifact of the first; a username save into a folder that holds \<open>Log2.json\<close> alone
  generates \<open>Log2.json\<close> and replaces it.
\<close>

theorem same_second_overwrites_counterexample:
  "to_the_second (now offline_out) = to_the_second ((now offline_out)\<lparr>microsecond := 750000\<rparr>)
   \<and> (\<exists>w1 s1 w2 s2.
         EmailModule_save_results offline_out (holding (JInt 1)) = Inr (w1, s1)
       \<and> disk w1 ''out'' = Some [(''EmailLog_20240517_093012.json'', Dump [(''x'', JInt 1)])]
       \<and> EmailModule_save_results (w1\<lparr>now := (now w1)\<lparr>microsecond := 750000\<rparr>\<rparr>) (holding (JInt 2))
            = Inr (w2, s2)
       \<and> disk w2 ''out'' = Some [(''EmailLog_20240517_093012.json'', Dump [(''x'', JInt 2)])])
   \<and> (\<exists>w3 s3.
         UsernameModule_save_results stray_log (holding (JInt 2)) = Inr (w3, s3)
       \<and> disk stray_log ''out'' = Some [(''Log2.json'', Dump [(''x'', JInt 1)])]
       \<and> disk w3 ''out'' = Some [(''Log2.json'', Dump [(''x'', JInt 2)])])"
proof -
  have a: "to_the_second (now offline_out) =
           to_the_second ((now offline_out)\<lparr>microsecond := 750000\<rparr>)"
    by (simp add: to_the_second_def)
  have b: "\<exists>w1 s1 w2 s2.
         EmailModule_save_results offline_out (holding (JInt 1)) = Inr (w1, s1)
       \<and> disk w1 ''out'' = Some [(''EmailLog_20240517_093012.json'', Dump [(''x'', JInt 1)])]
       \<and> EmailModule_save_results (w1\<lparr>now := (now w1)\<lparr>microsecond := 750000\<rparr>\<rparr>) (holding (JInt 2))
            = Inr (w2, s2)
       \<and> disk w2 ''out'' = Some [(''EmailLog_20240517_093012.json'', Dump [(''x'', JInt 2)])]"
    by (simp add: EmailModule_save_results_def save_timestamped_def write_json_def
        holding_def blank_def now_offline_out stamp_now stamp_later Let_def)
      (simp add: offline_out_def offline_def strftime_def digit_def zpad_numeral)
  have c: "\<exists>w3 s3.
         UsernameModule_save_results stray_log (holding (JInt 2)) = Inr (w3, s3)
       \<and> disk stray_log ''out'' = Some [(''Log2.json'', Dump [(''x'', JInt 1)])]
       \<and> disk w3 ''out'' = Some [(''Log2.json'', Dump [(''x'', JInt 2)])]"
    by (simp add: UsernameModule_save_results_def listdir_def write_json_def
        holding_def blank_def stray_log_def offline_def show_nat_2 Let_def)
  from a b c show ?thesis by (intro conjI)
qed


section \<open>Validation of the target\<close>

text \<open>
  C5, as the code has it. \<open>find\<close> and \<open>target\<close> check the syntax of an email address or an IP
  address before \<open>execute\<close> can run: an accepted value becomes the target; a rejected one
  is logged and not stored, and on a session that has no target yet \<open>execute\<close> then returns
  at its guard, in the world as it was and with the results as they were, so nothing
  has been dispatched. \<open>search\<close> stores any username unchecked; only the empty one stops
  \<open>execute\<close>, at the same guard.
\<close>

theorem rejected_target_not_run:
  assumes "\<not> EmailModule_validate_email email" and "\<not> TraceModule_validate_ip w ip"
    and "\<not> truthy (target m)" and "EmailModule_validate_email good"
    and "TraceModule_validate_ip w good_ip"
  shows "EmailModule_execute w (EmailModule_find email m) =
           Done (w, logger ERROR ''No target email specified''
                      (logger ERROR (''Invalid email format: '' @ email) m))
    \<and> TraceModule_execute w (TraceModule_target w ip m) =
           Done (w, logger ERROR ''No target IP specified''
                      (logger ERROR (''Invalid IP address: '' @ ip) m))
    \<and> results (logger ERROR ''No target email specified''
                 (logger ERROR (''Invalid email format: '' @ email) m)) = results m
    \<and> results (logger ERROR ''No target IP specified''
                 (logger ERROR (''Invalid IP address: '' @ ip) m)) = results m
    \<and> target (EmailModule_find good s) = Some good
    \<and> target (TraceModule_target w good_ip s') = Some good_ip
    \<and> target (UsernameModule_search username u) = Some username
    \<and> UsernameModule_execute w (UsernameModule_search [] u) =
           Done (w, logger ERROR ''No target username specified'' (UsernameModule_search [] u))"
proof -
  have e: "EmailModule_find email m = logger ERROR (''Invalid email format: '' @ email) m"
    using assms(1) by (simp add: EmailModule_find_def)
  have t: "TraceModule_target w ip m = logger ERROR (''Invalid IP address: '' @ ip) m"
    using assms(2) by (simp add: TraceModule_target_def)
  have 1: "EmailModule_execute w (EmailModule_find email m) =
           Done (w, logger ERROR ''No target email specified''
                      (logger ERROR (''Invalid email format: '' @ email) m))"
    using assms(3) by (simp add: e EmailModule_execute_def)
  have 2: "TraceModule_execute w (TraceModule_target w ip m) =
           Done (w, logger ERROR ''No target IP specified''
                      (logger ERROR (''Invalid IP address: '' @ ip) m))"
    using assms(3) by (simp add: t TraceModule_execute_def)
  have 3: "target (EmailModule_find good s) = Some good"
    using assms(4) by (simp add: EmailModule_find_def)
  have 4: "target (TraceModule_target w good_ip s') = Some good_ip"
    using assms(5) by (simp add: TraceModule_target_def)
  have 5: "target (UsernameModule_search username u) = Some username"
    by (simp add: UsernameModule_search_def)
  have 6: "UsernameModule_execute w (UsernameModule_search [] u) =
           Done (w, logger ERROR ''No target username specified'' (UsernameModule_search [] u))"
    by (simp add: UsernameModule_execute_def UsernameModule_search_def)
  from 1 2 3 4 5 6 show ?thesis by simp
qed

lemma validate_bad: "\<not> EmailModule_validate_email ''bad''"
  by code_simp

theorem rejected_target_not_run_witness:
  "\<not> EmailModule_validate_email ''bad'' \<and> \<not> TraceModule_validate_ip offline ''999.1.1''
   \<and> EmailModule_validate_email ''a@b.co'' \<and> TraceModule_validate_ip offline ''8.8.8.8''
   \<and> EmailModule_execute offline (EmailModule_find ''bad'' EmailModule_init) =
        Done (offline, logger ERROR ''No target email specified''
                         (logger ERROR ''Invalid email format: bad'' EmailModule_init))
   \<and> TraceModule_execute offline (TraceModule_target offline ''999.1.1'' TraceModule_init) =
        Done (offline, logger ERROR ''No target IP specified''
                         (logger ERROR ''Invalid IP address: 999.1.1'' TraceModule_init))
   \<and> results (logger ERROR ''No target email specified''
                 (logger ERROR ''Invalid email format: bad'' EmailModule_init)) = []
   \<and> target (EmailModule_find ''a@b.co'' EmailModule_init) = Some ''a@b.co''
   \<and> target (TraceModule_target offline ''8.8.8.8'' TraceModule_init) = Some ''8.8.8.8''
   \<and> target (UsernameModule_search ''a b'' UsernameModule_init) = Some ''a b''"
proof -
  have a: "\<not> TraceModule_validate_ip offline ''999.1.1''"
    and b: "TraceModule_validate_ip offline ''8.8.8.8''"
    by (simp_all add: TraceModule_validate_ip_def offline_def)
  have c: "\<not> truthy (target EmailModule_init)" and d: "\<not> truthy (target TraceModule_init)"
    by (simp_all add: EmailModule_init_def TraceModule_init_def)
  have r: "results EmailModule_init = []"
    by (simp add: EmailModule_init_def)
  show ?thesis
    using a b r validate_bad validate_ab_co
      rejected_target_not_run [OF validate_bad a c validate_ab_co b,
        where s = EmailModule_init and s' = TraceModule_init and username = "''a b''"
          and u = UsernameModule_init]
      rejected_target_not_run [OF validate_bad a d validate_ab_co b,
        where s = EmailModule_init and s' = TraceModule_init and username = "''a b''"
          and u = UsernameModule_init]
    by simp
qed

lemma format0_github_ab: "format0 ''https://www.github.com/{0}'' ''a b'' = Inr ''https://www.github.com/a b''"
  by code_simp

lemma format0_gitlab_ab: "format0 ''https://www.gitlab.com/{0}'' ''a b'' = Inr ''https://www.gitlab.com/a b''"
  by code_simp

text \<open>
  The claim as the specification words it fails twice. A rejected address does not
  stop the run of a session that holds an earlier target: \<open>find('bad')\<close> leaves
  \<open>a@b.co\<close> in place and \<open>execute\<close> runs the probes on it. And a username is never checked:
  \<open>'a b'\<close> is stored and looked up on every platform.
\<close>

theorem stale_or_unchecked_target_counterexample:
  "\<not> EmailModule_validate_email ''bad''
   \<and> target (EmailModule_find ''bad'' ab_co) = Some ''a@b.co''
   \<and> (\<exists>w' m'. EmailModule_execute offline (EmailModule_find ''bad'' ab_co) = Done (w', m') \<and>
         map_of (results m') ''enrichment'' =
           Some (JObj [(''person'', JObj [(''email'', JStr ''a@b.co''),
                                          (''name'', JStr ''Data Enriched'')])]))
   \<and> target (UsernameModule_search ''a b'' two_platforms) = Some ''a b''
   \<and> (\<exists>w' m'. UsernameModule_execute all_found (UsernameModule_search ''a b'' two_platforms)
                   = Done (w', m') \<and>
         results m' = [(''github'', JStr ''https://www.github.com/a b''),
                       (''gitlab'', JStr ''https://www.gitlab.com/a b'')])"
proof -
  have 1: "target (EmailModule_find ''bad'' ab_co) = Some ''a@b.co''"
    by (simp add: EmailModule_find_def validate_bad ab_co_def validate_ab_co)
  have 2: "\<exists>w' m'. EmailModule_execute offline (EmailModule_find ''bad'' ab_co) = Done (w', m') \<and>
         map_of (results m') ''enrichment'' =
           Some (JObj [(''person'', JObj [(''email'', JStr ''a@b.co''),
                                          (''name'', JStr ''Data Enriched'')])])"
    by (simp add: EmailModule_execute_def ab_co_def EmailModule_find_def EmailModule_init_def
        validate_ab_co validate_bad default_folder_def makedirs_def offline_def
        EmailModule_probes_def EmailModule_check_breaches_def EmailModule_check_reputation_def
        EmailModule_verify_email_def EmailModule_clearbit_enrichment_def service_probe_def
        http_probe_def EmailModule_setup_email_services_def submit_def await_and_save_def
        pool_drains_def future_result_def EmailModule_save_results_def save_timestamped_def
        write_json_def Let_def)
  have 3: "target (UsernameModule_search ''a b'' two_platforms) = Some ''a b''"
    by (simp add: UsernameModule_search_def)
  have 4: "\<exists>w' m'. UsernameModule_execute all_found (UsernameModule_search ''a b'' two_platforms)
                   = Done (w', m') \<and>
         results m' = [(''github'', JStr ''https://www.github.com/a b''),
                       (''gitlab'', JStr ''https://www.gitlab.com/a b'')]"
    by (simp add: UsernameModule_execute_def two_platforms_def UsernameModule_search_def
        UsernameModule_init_def default_folder_def makedirs_def
        UsernameModule_check_platform_def format0_github_ab format0_gitlab_ab
        all_found_def offline_out_def offline_def submit_def await_and_save_def pool_drains_def
        future_result_def UsernameModule_save_results_def listdir_def write_json_def Let_def)
  from validate_bad 1 2 3 4 show ?thesis by (intro conjI)
qed

end
